theory Spec2Isabelle
  imports Complex_Main
begin

section \<open>Numbers and their text\<close>

text \<open>
  The generator \<^verbatim>\<open>generate_svgs.py\<close> computes coordinates as \<^verbatim>\<open>p[0]*scale + offset_x\<close> with
  integer design points, a float scale and numeric offsets, and interpolates the results into
  f-strings.  Two models of this arithmetic are used.  For the calls the program itself makes
  (int design points and offsets, the float scales 0.8, 3.0, 0.5 and 0.6) coordinates are
  modelled as \<^typ>\<open>real\<close>, and the text that an f-string produces for a computed coordinate,
  which is the language runtime's and not code of the repository, is a parameter \<open>fmt\<close> of every
  function that formats a coordinate; this model takes the double that Python computes at these
  calls to print as \<open>fmt\<close> of the exact value, and it is used for the documents a run writes.
  For arbitrary arguments of the path builder the model is that of section \<open>The path expression
  on Python's numbers\<close>: ints and doubles as Python has them, with the errors their operations
  raise.  Widths and heights handed to \<^verbatim>\<open>create_svg\<close> are Python integers; their text is the
  decimal numeral, defined here.
\<close>

type_synonym point = "real \<times> real"

definition py_int :: "real \<Rightarrow> int" where
  \<comment> \<open>\<^verbatim>\<open>int(x)\<close> on a float: truncation toward zero.\<close>
  "py_int x = (if 0 \<le> x then \<lfloor>x\<rfloor> else \<lceil>x\<rceil>)"

definition digit_char :: "nat \<Rightarrow> char" where
  "digit_char d = ''0123456789'' ! d"

function nat_str :: "nat \<Rightarrow> string" where
  "nat_str n = (if n < 10 then [digit_char n] else nat_str (n div 10) @ [digit_char (n mod 10)])"
  by pat_completeness auto
termination
  by (relation "measure id") auto

declare nat_str.simps [simp del]

definition str_int :: "int \<Rightarrow> string" where
  \<comment> \<open>\<^verbatim>\<open>f"{n}"\<close> for a Python integer \<open>n\<close>.\<close>
  "str_int i = (if i < 0 then CHR ''-'' # nat_str (nat (- i)) else nat_str (nat i))"

definition float_text :: "real \<Rightarrow> string" where
  \<comment> \<open>The text Python gives a float whose value has at most one decimal place and fewer than
      seventeen digits (\<^verbatim>\<open>10.0\<close>, \<^verbatim>\<open>12.5\<close>, \<^verbatim>\<open>-4.0\<close>): every coordinate this program
      computes is such a value.  Used only to instantiate \<open>fmt\<close> at concrete inputs.\<close>
  "float_text v =
     (let a = \<bar>v\<bar>
      in (if v < 0 then ''-'' else '''') @ nat_str (nat \<lfloor>a\<rfloor>) @ ''.'' @
         [digit_char (nat \<lfloor>a * 10\<rfloor> mod 10)])"

section \<open>Strings\<close>

fun join :: "string \<Rightarrow> string list \<Rightarrow> string" where
  \<comment> \<open>\<^verbatim>\<open>sep.join(xs)\<close>\<close>
  "join sep [] = []"
| "join sep [x] = x"
| "join sep (x # y # ys) = x @ sep @ join sep (y # ys)"

section \<open>The polygon path expression\<close>

text \<open>
  Every contour of the program is turned into path data by the same expression,
  \<^verbatim>\<open>"M " + " L ".join([f"{p[0]*scale + ox},{p[1]*scale + oy}" for p in pts]) + " Z"\<close>
  (lines 28, 44, 53, 61, 67, 74 and 84 of the source; lines 54, 55 and 75 prefix it with a
  blank).  \<open>coord\<close> is the f-string of the comprehension, \<open>path_d\<close> the whole expression,
  both on real numbers: the model of the program's own calls.  It says nothing of rounding or of
  errors; statements about arbitrary scales and offsets are made of \<open>path_d_py\<close> below, and
  lemma \<open>path_d_py_exact\<close> relates the two.
\<close>

definition coord :: "(real \<Rightarrow> string) \<Rightarrow> real \<Rightarrow> real \<Rightarrow> real \<Rightarrow> point \<Rightarrow> string" where
  "coord fmt scale offset_x offset_y p =
     fmt (fst p * scale + offset_x) @ '','' @ fmt (snd p * scale + offset_y)"

definition path_d :: "(real \<Rightarrow> string) \<Rightarrow> point list \<Rightarrow> real \<Rightarrow> real \<Rightarrow> real \<Rightarrow> string" where
  "path_d fmt pts scale offset_x offset_y =
     ''M '' @ join '' L '' (map (coord fmt scale offset_x offset_y) pts) @ '' Z''"

definition n_mark_points :: "point list" where
  \<comment> \<open>\<^verbatim>\<open>points\<close> of \<^verbatim>\<open>get_n_mark_path\<close>: a stylized N\<close>
  "n_mark_points =
     [(0, 100), (0, 0), (30, 0), (70, 70), (70, 0), (100, 0), (100, 100), (70, 100), (30, 30),
      (30, 100)]"

definition get_n_mark_path :: "(real \<Rightarrow> string) \<Rightarrow> real \<Rightarrow> real \<Rightarrow> real \<Rightarrow> string" where
  "get_n_mark_path fmt scale offset_x offset_y =
     (let points = n_mark_points;
          path_d = ''M '' @ join '' L '' (map (coord fmt scale offset_x offset_y) points) @ '' Z''
      in path_d)"

section \<open>The path expression on Python's numbers\<close>

text \<open>
  For arbitrary arguments the expression computes on Python's numbers: an \<^verbatim>\<open>int\<close> is unbounded and
  exact, a \<^verbatim>\<open>float\<close> is a double.  Mixing the two converts the integer to a double first, which
  raises \<^verbatim>\<open>OverflowError\<close> when it is too large; the text of an integer with more digits than
  the interpreter's limit raises \<^verbatim>\<open>ValueError\<close>.  Operations on doubles never raise.  What a
  double is, how products and sums of doubles round, and the text of a double are the
  runtime's: they are the fields of a \<open>runtime\<close> over a type \<open>'f\<close> of doubles, a parameter of
  every function here.  An exception is the value \<open>Inl\<close>.
\<close>

datatype 'f num = PyInt int | PyFloat 'f

datatype num_error = OverflowError | ValueError

record 'f runtime =
  fmul :: "'f \<Rightarrow> 'f \<Rightarrow> 'f"
  fadd :: "'f \<Rightarrow> 'f \<Rightarrow> 'f"
  float_of_int :: "int \<Rightarrow> 'f"
  float_repr :: "'f \<Rightarrow> string"
  max_str_digits :: nat

definition fits_double :: "int \<Rightarrow> bool" where
  \<comment> \<open>the integers that round to a finite double\<close>
  "fits_double n = (\<bar>n\<bar> < 2 ^ 1024 - 2 ^ 970)"

definition to_float :: "'f runtime \<Rightarrow> int \<Rightarrow> num_error + 'f" where
  "to_float rt n = (if fits_double n then Inr (float_of_int rt n) else Inl OverflowError)"

fun then_num :: "num_error + 'a \<Rightarrow> ('a \<Rightarrow> num_error + 'b) \<Rightarrow> num_error + 'b" where
  "then_num (Inl e) f = Inl e"
| "then_num (Inr v) f = f v"

fun py_mul :: "'f runtime \<Rightarrow> 'f num \<Rightarrow> 'f num \<Rightarrow> num_error + 'f num" where
  \<comment> \<open>\<^verbatim>\<open>a * b\<close>\<close>
  "py_mul rt (PyInt a) (PyInt b) = Inr (PyInt (a * b))"
| "py_mul rt (PyInt a) (PyFloat y) = then_num (to_float rt a) (\<lambda>x. Inr (PyFloat (fmul rt x y)))"
| "py_mul rt (PyFloat x) (PyInt b) = then_num (to_float rt b) (\<lambda>y. Inr (PyFloat (fmul rt x y)))"
| "py_mul rt (PyFloat x) (PyFloat y) = Inr (PyFloat (fmul rt x y))"

fun py_add :: "'f runtime \<Rightarrow> 'f num \<Rightarrow> 'f num \<Rightarrow> num_error + 'f num" where
  \<comment> \<open>\<^verbatim>\<open>a + b\<close>\<close>
  "py_add rt (PyInt a) (PyInt b) = Inr (PyInt (a + b))"
| "py_add rt (PyInt a) (PyFloat y) = then_num (to_float rt a) (\<lambda>x. Inr (PyFloat (fadd rt x y)))"
| "py_add rt (PyFloat x) (PyInt b) = then_num (to_float rt b) (\<lambda>y. Inr (PyFloat (fadd rt x y)))"
| "py_add rt (PyFloat x) (PyFloat y) = Inr (PyFloat (fadd rt x y))"

fun py_str :: "'f runtime \<Rightarrow> 'f num \<Rightarrow> num_error + string" where
  \<comment> \<open>\<^verbatim>\<open>f"{v}"\<close>; the digit limit does not count the sign, and 0 switches it off\<close>
  "py_str rt (PyInt n) =
     (if max_str_digits rt \<noteq> 0 \<and> max_str_digits rt < length (nat_str (nat \<bar>n\<bar>))
      then Inl ValueError else Inr (str_int n))"
| "py_str rt (PyFloat x) = Inr (float_repr rt x)"

definition axis_py :: "'f runtime \<Rightarrow> 'f num \<Rightarrow> 'f num \<Rightarrow> 'f num \<Rightarrow> num_error + string" where
  \<comment> \<open>\<^verbatim>\<open>f"{v*scale + offset}"\<close>\<close>
  "axis_py rt v scale offset =
     then_num (py_mul rt v scale) (\<lambda>a. then_num (py_add rt a offset) (py_str rt))"

definition coord_py ::
  "'f runtime \<Rightarrow> 'f num \<Rightarrow> 'f num \<Rightarrow> 'f num \<Rightarrow> 'f num \<times> 'f num \<Rightarrow> num_error + string" where
  \<comment> \<open>\<^verbatim>\<open>f"{p[0]*scale + offset_x},{p[1]*scale + offset_y}"\<close>: the first field is computed and
      formatted before the second\<close>
  "coord_py rt scale offset_x offset_y p =
     then_num (axis_py rt (fst p) scale offset_x) (\<lambda>tx.
     then_num (axis_py rt (snd p) scale offset_y) (\<lambda>ty.
     Inr (tx @ '','' @ ty)))"

fun coords_py ::
  "'f runtime \<Rightarrow> 'f num \<Rightarrow> 'f num \<Rightarrow> 'f num \<Rightarrow> ('f num \<times> 'f num) list \<Rightarrow> num_error + string list"
  where
  \<comment> \<open>the list comprehension: point after point, the first exception ends it\<close>
  "coords_py rt scale offset_x offset_y [] = Inr []"
| "coords_py rt scale offset_x offset_y (p # ps) =
     then_num (coord_py rt scale offset_x offset_y p) (\<lambda>t.
     then_num (coords_py rt scale offset_x offset_y ps) (\<lambda>ts.
     Inr (t # ts)))"

definition path_d_py ::
  "'f runtime \<Rightarrow> ('f num \<times> 'f num) list \<Rightarrow> 'f num \<Rightarrow> 'f num \<Rightarrow> 'f num \<Rightarrow> num_error + string" where
  "path_d_py rt pts scale offset_x offset_y =
     then_num (coords_py rt scale offset_x offset_y pts) (\<lambda>ts.
     Inr (''M '' @ join '' L '' ts @ '' Z''))"

definition n_mark_points_py :: "('f num \<times> 'f num) list" where
  \<comment> \<open>\<^verbatim>\<open>points\<close> of \<^verbatim>\<open>get_n_mark_path\<close>, as the integer literals they are\<close>
  "n_mark_points_py =
     [(PyInt 0, PyInt 100), (PyInt 0, PyInt 0), (PyInt 30, PyInt 0), (PyInt 70, PyInt 70),
      (PyInt 70, PyInt 0), (PyInt 100, PyInt 0), (PyInt 100, PyInt 100), (PyInt 70, PyInt 100),
      (PyInt 30, PyInt 30), (PyInt 30, PyInt 100)]"

definition get_n_mark_path_py ::
  "'f runtime \<Rightarrow> 'f num \<Rightarrow> 'f num \<Rightarrow> 'f num \<Rightarrow> num_error + string" where
  \<comment> \<open>\<^verbatim>\<open>get_n_mark_path(scale, offset_x, offset_y)\<close> for any numbers\<close>
  "get_n_mark_path_py rt scale offset_x offset_y =
     (let points = n_mark_points_py
      in then_num (coords_py rt scale offset_x offset_y points) (\<lambda>ts.
         Inr (''M '' @ join '' L '' ts @ '' Z'')))"

fun in_range :: "'f num \<Rightarrow> bool" where
  \<comment> \<open>a float, or an integer that converts to one\<close>
  "in_range (PyInt n) = fits_double n"
| "in_range (PyFloat x) = True"

fun as_float :: "'f runtime \<Rightarrow> 'f num \<Rightarrow> 'f" where
  "as_float rt (PyInt n) = float_of_int rt n"
| "as_float rt (PyFloat x) = x"

definition float_axis :: "'f runtime \<Rightarrow> 'f num \<Rightarrow> 'f \<Rightarrow> 'f num \<Rightarrow> string" where
  \<comment> \<open>the text of \<open>v*scale + offset\<close> computed in doubles\<close>
  "float_axis rt v s offset = float_repr rt (fadd rt (fmul rt (as_float rt v) s) (as_float rt offset))"

fun returns :: "num_error + 'a \<Rightarrow> bool" where
  \<comment> \<open>the computation raised nothing\<close>
  "returns (Inr v) = True"
| "returns (Inl e) = False"

definition plain_repr :: "'f runtime \<Rightarrow> bool" where
  \<comment> \<open>the text of a double holds neither a blank nor a comma\<close>
  "plain_repr rt = (\<forall>x. CHR '' '' \<notin> set (float_repr rt x) \<and> CHR '','' \<notin> set (float_repr rt x))"

definition exact_rt :: "(real \<Rightarrow> string) \<Rightarrow> real runtime" where
  \<comment> \<open>a runtime whose doubles are the reals, without rounding: at the arguments of the
      program's own calls it computes what double arithmetic computes\<close>
  "exact_rt fmt =
     \<lparr>fmul = (*), fadd = (+), float_of_int = of_int, float_repr = fmt, max_str_digits = 4300\<rparr>"

section \<open>The wordmark\<close>

definition pts_e :: "point list" where
  "pts_e = [(0,0), (80,0), (80,20), (20,20), (20,40), (60,40), (60,60), (20,60), (20,80),
            (80,80), (80,100), (0,100)]"

definition pts_b_out :: "point list" where
  "pts_b_out = [(0,0), (60,0), (80,20), (80,40), (60,50), (80,60), (80,80), (60,100), (0,100)]"

definition pts_b_in1 :: "point list" where
  "pts_b_in1 = [(20,20), (50,20), (60,30), (50,40), (20,40)]"

definition pts_b_in2 :: "point list" where
  "pts_b_in2 = [(20,60), (50,60), (60,70), (50,80), (20,80)]"

definition pts_u :: "point list" where
  "pts_u = [(0,0), (20,0), (20,80), (60,80), (60,0), (80,0), (80,100), (0,100)]"

definition pts_l :: "point list" where
  "pts_l = [(0,0), (20,0), (20,80), (80,80), (80,100), (0,100)]"

definition pts_a_out :: "point list" where
  "pts_a_out = [(40,0), (60,0), (100,100), (80,100), (70,70), (30,70), (20,100), (0,100)]"

definition pts_a_in :: "point list" where
  "pts_a_in = [(40,50), (60,50), (50,20)]"

definition pts_x :: "point list" where
  "pts_x = [(0,0), (25,0), (50,40), (75,0), (100,0), (65,50), (100,100), (75,100), (50,60),
            (25,100), (0,100), (35,50)]"

definition get_wordmark_paths ::
  "(real \<Rightarrow> string) \<Rightarrow> real \<Rightarrow> real \<Rightarrow> real \<Rightarrow> string \<times> real" where
  \<open>get_wordmark_paths fmt scale start_x start_y =
     (let paths = [];
          x = start_x;
          \<comment> \<open>N\<close>
          paths = paths @ [''<path d="'' @ get_n_mark_path fmt scale x start_y @
                           ''" fill="currentColor" />''];
          x = x + 120 * scale;
          \<comment> \<open>E\<close>
          d_e = ''M '' @ join '' L '' (map (coord fmt scale x start_y) pts_e) @ '' Z'';
          paths = paths @ [''<path d="'' @ d_e @ ''" fill="currentColor" />''];
          x = x + 100 * scale;
          \<comment> \<open>B\<close>
          d_b = ''M '' @ join '' L '' (map (coord fmt scale x start_y) pts_b_out) @ '' Z'';
          d_b = d_b @ '' M '' @ join '' L '' (map (coord fmt scale x start_y) pts_b_in1) @ '' Z'';
          d_b = d_b @ '' M '' @ join '' L '' (map (coord fmt scale x start_y) pts_b_in2) @ '' Z'';
          paths = paths @ [''<path d="'' @ d_b @ ''" fill-rule="evenodd" fill="currentColor" />''];
          x = x + 100 * scale;
          \<comment> \<open>U\<close>
          d_u = ''M '' @ join '' L '' (map (coord fmt scale x start_y) pts_u) @ '' Z'';
          paths = paths @ [''<path d="'' @ d_u @ ''" fill="currentColor" />''];
          x = x + 100 * scale;
          \<comment> \<open>L\<close>
          d_l = ''M '' @ join '' L '' (map (coord fmt scale x start_y) pts_l) @ '' Z'';
          paths = paths @ [''<path d="'' @ d_l @ ''" fill="currentColor" />''];
          x = x + 100 * scale;
          \<comment> \<open>A\<close>
          d_a = ''M '' @ join '' L '' (map (coord fmt scale x start_y) pts_a_out) @ '' Z'';
          d_a = d_a @ '' M '' @ join '' L '' (map (coord fmt scale x start_y) pts_a_in) @ '' Z'';
          paths = paths @ [''<path d="'' @ d_a @ ''" fill-rule="evenodd" fill="currentColor" />''];
          x = x + 120 * scale;
          \<comment> \<open>Space\<close>
          x = x + 40 * scale;
          \<comment> \<open>X\<close>
          d_x = ''M '' @ join '' L '' (map (coord fmt scale x start_y) pts_x) @ '' Z'';
          paths = paths @ [''<path d="'' @ d_x @ ''" fill="currentColor" />''];
          x = x + 120 * scale
      in (concat paths, x))\<close>

section \<open>Configuration\<close>

definition OUTPUT_DIR :: string where
  "OUTPUT_DIR = ''nebula-x-assets''"

definition COLORS :: "(string \<times> string) list" where
  "COLORS =
     [(''Deep Space'', ''#0B0D17''),
      (''Space Navy'', ''#111827''),
      (''Nebula Purple'', ''#7C3AED''),
      (''Cosmic Cyan'', ''#06B6D4''),
      (''Stellar Gold'', ''#F59E0B''),
      (''Starlight White'', ''#F1F5F9''),
      (''Aurora Green'', ''#10B981''),
      (''Mars Red'', ''#EF4444'')]"

definition color :: "string \<Rightarrow> string" where
  \<comment> \<open>\<^verbatim>\<open>COLORS[k]\<close>; every key the program looks up is a literal of the table
      (lemma \<open>colors_found\<close>).\<close>
  "color k = the (map_of COLORS k)"

section \<open>The file system, the environment and the output writer\<close>

text \<open>
  The program's effects are \<^verbatim>\<open>os.path.exists\<close>, \<^verbatim>\<open>os.makedirs\<close>, \<^verbatim>\<open>open(path, "w")\<close> with
  one \<^verbatim>\<open>write\<close>, and \<^verbatim>\<open>print\<close>.  A \<open>world\<close> holds the directories, the files with their text
  and the effects performed so far, in order.  Whether the operating system lets a directory be
  made or a file be opened and written is not decided by the program: the \<open>env\<close> says, for each
  path, what happens.  A Python exception that nothing catches is the value \<open>Inl (e, w)\<close>: the
  error raised, and the world at that moment.
\<close>

datatype error =
    FileNotFoundError string
  | NotADirectoryError string
  | IsADirectoryError string
  | FileExistsError string
  | OSError nat string

datatype event =
    MakeDirs string
  | WriteFile string string
  | WriteBroken string
  | Print string

record world =
  dirs :: "string set"
  files :: "string \<rightharpoonup> string"
  trace :: "event list"

datatype write_result =
    Written
  | OpenFails error
  | WriteFails error nat

record env =
  makedirs_result :: "string \<Rightarrow> error option"
  write_result :: "string \<Rightarrow> write_result"

type_synonym outcome = "error \<times> world + world"

fun and_then :: "outcome \<Rightarrow> (world \<Rightarrow> outcome) \<Rightarrow> outcome" where
  \<comment> \<open>statement sequencing: an exception skips everything after it\<close>
  "and_then (Inl e) f = Inl e"
| "and_then (Inr w) f = f w"

definition path_join :: "string \<Rightarrow> string \<Rightarrow> string" where
  \<comment> \<open>\<^verbatim>\<open>os.path.join(a, b)\<close> (POSIX)\<close>
  "path_join a b =
     (if b \<noteq> [] \<and> hd b = CHR ''/'' then b
      else if a = [] \<or> last a = CHR ''/'' then a @ b
      else a @ ''/'' @ b)"

definition dirname :: "string \<Rightarrow> string" where
  \<comment> \<open>the directory a relative path lies in: the text before its last separator, empty
      (the working directory) when it has none\<close>
  "dirname p = rev (tl (dropWhile (\<lambda>c. c \<noteq> CHR ''/'') (rev p)))"

definition dir_exists :: "world \<Rightarrow> string \<Rightarrow> bool" where
  "dir_exists w d = (d = [] \<or> d \<in> dirs w)"

definition path_exists :: "world \<Rightarrow> string \<Rightarrow> bool" where
  \<comment> \<open>\<^verbatim>\<open>os.path.exists(p)\<close>\<close>
  "path_exists w p = (p \<in> dirs w \<or> files w p \<noteq> None)"

definition makedirs :: "env \<Rightarrow> string \<Rightarrow> world \<Rightarrow> outcome" where
  \<comment> \<open>\<^verbatim>\<open>os.makedirs(p)\<close> for a path of one component\<close>
  "makedirs en p w =
     (if path_exists w p then Inl (FileExistsError p, w)
      else (case makedirs_result en p of
              Some e \<Rightarrow> Inl (e, w)
            | None \<Rightarrow> Inr (w\<lparr>dirs := insert p (dirs w), trace := trace w @ [MakeDirs p]\<rparr>)))"

definition svg_text :: "int \<Rightarrow> int \<Rightarrow> string \<Rightarrow> string" where
  \<comment> \<open>the f-string \<^verbatim>\<open>svg\<close> of \<^verbatim>\<open>create_svg\<close> (line 17)\<close>
  \<open>svg_text width height content =
     ''<svg width="'' @ str_int width @ ''" height="'' @ str_int height @
     ''" viewBox="0 0 '' @ str_int width @ '' '' @ str_int height @
     ''" xmlns="http://www.w3.org/2000/svg">\<newline>'' @ content @ ''\<newline></svg>''\<close>

definition create_svg :: "env \<Rightarrow> string \<Rightarrow> int \<Rightarrow> int \<Rightarrow> string \<Rightarrow> world \<Rightarrow> outcome" where
  "create_svg en filename width height content w =
     (let svg = svg_text width height content;
          filepath = path_join OUTPUT_DIR filename
      in if \<not> dir_exists w (dirname filepath) then
           Inl (if files w (dirname filepath) \<noteq> None then NotADirectoryError filepath
                else FileNotFoundError filepath, w)
         else if filepath \<in> dirs w then Inl (IsADirectoryError filepath, w)
         else (case write_result en filepath of
                 OpenFails e \<Rightarrow> Inl (e, w)
               | WriteFails e n \<Rightarrow>
                   Inl (e, w\<lparr>files := (files w)(filepath \<mapsto> take n svg),
                             trace := trace w @ [WriteBroken filepath]\<rparr>)
               | Written \<Rightarrow>
                   Inr (w\<lparr>files := (files w)(filepath \<mapsto> svg),
                          trace := trace w @
                            [WriteFile filepath svg, Print (''Created '' @ filename)]\<rparr>)))"

section \<open>The assets\<close>

text \<open>
  The local variables of \<^verbatim>\<open>generate_assets\<close> that hold text are pure values; each is a
  definition of its own here, under the name it has in the source.
\<close>

definition defs :: string where
  \<open>defs =
     ''\<newline>    <defs>\<newline>'' @
     ''        <linearGradient id="nebula_gradient" x1="0%" y1="0%" x2="100%" y2="100%">\<newline>'' @
     ''            <stop offset="0%" style="stop-color:'' @ color ''Nebula Purple'' @
       '';stop-opacity:1" />\<newline>'' @
     ''            <stop offset="100%" style="stop-color:'' @ color ''Cosmic Cyan'' @
       '';stop-opacity:1" />\<newline>'' @
     ''        </linearGradient>\<newline>'' @
     ''    </defs>\<newline>'' @
     ''    ''\<close>

definition mark_content :: "(real \<Rightarrow> string) \<Rightarrow> string" where
  \<open>mark_content fmt =
     (let mark_path = get_n_mark_path fmt 0.8 10 10
      in defs @ ''<path d="'' @ mark_path @ ''" fill="url(#nebula_gradient)" />'')\<close>

definition splash_content :: "(real \<Rightarrow> string) \<Rightarrow> string" where
  \<open>splash_content fmt =
     (let splash_path = get_n_mark_path fmt 3.0 50 50
      in defs @ ''<path d="'' @ splash_path @ ''" fill="url(#nebula_gradient)" />'')\<close>

definition wordmark_content :: "(real \<Rightarrow> string) \<Rightarrow> string" where
  \<open>wordmark_content fmt =
     (let (wordmark_paths, width) = get_wordmark_paths fmt 0.5 0 0
      in ''<g style="color:'' @ color ''Starlight White'' @ ''">'' @ wordmark_paths @ ''</g>'')\<close>

definition wordmark_width :: "(real \<Rightarrow> string) \<Rightarrow> real" where
  \<comment> \<open>\<^verbatim>\<open>width\<close> of line 115\<close>
  "wordmark_width fmt = (let (wordmark_paths, width) = get_wordmark_paths fmt 0.5 0 0 in width)"

definition logo_paths :: "(real \<Rightarrow> string) \<Rightarrow> string" where
  "logo_paths fmt = fst (get_wordmark_paths fmt 0.5 70 15)"

definition logo_width :: "(real \<Rightarrow> string) \<Rightarrow> real" where
  "logo_width fmt = snd (get_wordmark_paths fmt 0.5 70 15)"

definition logo_mark :: "(real \<Rightarrow> string) \<Rightarrow> string" where
  \<open>logo_mark fmt =
     defs @ ''<path d="'' @ get_n_mark_path fmt 0.6 0 10 @ ''" fill="url(#nebula_gradient)" />''\<close>

definition logo_light_content :: "(real \<Rightarrow> string) \<Rightarrow> string" where
  \<open>logo_light_content fmt =
     ''\<newline>    '' @ logo_mark fmt @ ''\<newline>'' @
     ''    <g style="color:'' @ color ''Space Navy'' @ ''">'' @ logo_paths fmt @ ''</g>\<newline>'' @
     ''    ''\<close>

definition logo_dark_content :: "(real \<Rightarrow> string) \<Rightarrow> string" where
  \<open>logo_dark_content fmt =
     ''\<newline>    '' @ defs @ ''\<newline>'' @
     ''    '' @ logo_mark fmt @ ''\<newline>'' @
     ''    <g style="color:'' @ color ''Starlight White'' @ ''">'' @ logo_paths fmt @ ''</g>\<newline>'' @
     ''    ''\<close>

definition ornate_blobs :: "(real \<Rightarrow> string) \<Rightarrow> string" where
  \<open>ornate_blobs fmt =
     ''\<newline>    <circle cx="'' @ str_int (py_int (logo_width fmt) - 10) @ ''" cy="10" r="5" fill="'' @
       color ''Stellar Gold'' @ ''" opacity="0.8" />\<newline>'' @
     ''    <circle cx="10" cy="70" r="3" fill="'' @ color ''Cosmic Cyan'' @ ''" opacity="0.6" />\<newline>'' @
     ''    <path d="M 50,-10 L 52,-4 L 58,-2 L 52,0 L 50,6 L 48,0 L 42,-2 L 48,-4 Z" fill="'' @
       color ''Stellar Gold'' @ ''" />\<newline>'' @
     ''    ''\<close>

definition pattern_content :: string where
  \<open>pattern_content =
     ''\<newline>    <defs>\<newline>'' @
     ''      <pattern id="stars" x="0" y="0" width="100" height="100" patternUnits="userSpaceOnUse">\<newline>'' @
     ''        <circle cx="10" cy="10" r="1.5" fill="'' @ color ''Starlight White'' @
       ''" fill-opacity="0.5"/>\<newline>'' @
     ''        <circle cx="50" cy="60" r="2.5" fill="'' @ color ''Starlight White'' @
       ''" fill-opacity="0.3"/>\<newline>'' @
     ''        <circle cx="80" cy="30" r="2" fill="'' @ color ''Stellar Gold'' @
       ''" fill-opacity="0.4"/>\<newline>'' @
     ''      </pattern>\<newline>'' @
     ''    </defs>\<newline>'' @
     ''    <rect width="100%" height="100%" fill="'' @ color ''Deep Space'' @ ''" />\<newline>'' @
     ''    <rect width="100%" height="100%" fill="url(#stars)" />\<newline>'' @
     ''    ''\<close>

definition generate_assets :: "env \<Rightarrow> (real \<Rightarrow> string) \<Rightarrow> world \<Rightarrow> outcome" where
  \<open>generate_assets en fmt w0 =
     and_then (if \<not> path_exists w0 OUTPUT_DIR then makedirs en OUTPUT_DIR w0 else Inr w0) (\<lambda>w.
     \<comment> \<open>1. nebula-x-mark.svg\<close>
     and_then (create_svg en ''nebula-x-mark.svg'' 100 100 (mark_content fmt) w) (\<lambda>w.
     \<comment> \<open>2. nebula-x-splash.svg\<close>
     and_then (create_svg en ''nebula-x-splash.svg'' 400 400 (splash_content fmt) w) (\<lambda>w.
     \<comment> \<open>3. nebula-x-wordmark.svg\<close>
     and_then (create_svg en ''nebula-x-wordmark.svg'' (py_int (wordmark_width fmt)) 60
                 (wordmark_content fmt) w) (\<lambda>w.
     \<comment> \<open>4. nebula-x-logo-light.svg\<close>
     and_then (create_svg en ''nebula-x-logo-light.svg'' (py_int (logo_width fmt)) 80
                 (logo_light_content fmt) w) (\<lambda>w.
     \<comment> \<open>5. nebula-x-logo-dark.svg\<close>
     and_then (create_svg en ''nebula-x-logo-dark.svg'' (py_int (logo_width fmt)) 80
                 (logo_dark_content fmt) w) (\<lambda>w.
     \<comment> \<open>6. Ornate logos\<close>
     and_then (create_svg en ''nebula-x-logo-ornate-light.svg'' (py_int (logo_width fmt)) 80
                 (''<g>'' @ logo_light_content fmt @ ornate_blobs fmt @ ''</g>'') w) (\<lambda>w.
     and_then (create_svg en ''nebula-x-logo-ornate-dark.svg'' (py_int (logo_width fmt)) 80
                 (''<g>'' @ logo_dark_content fmt @ ornate_blobs fmt @ ''</g>'') w) (\<lambda>w.
     \<comment> \<open>7. Pattern\<close>
     and_then (create_svg en ''space-bg-pattern.svg'' 400 400 pattern_content w) (\<lambda>w.
     \<comment> \<open>8. Favicon.svg\<close>
     create_svg en ''favicon.svg'' 100 100 (mark_content fmt) w)))))))))\<close>

section \<open>Reading what was generated\<close>

text \<open>
  The properties below speak of the instructions of a path and of the attributes of a
  document's root element.  These functions read them back from the generated text; they are
  not part of the generator.
\<close>

fun split_on :: "char \<Rightarrow> string \<Rightarrow> string list" where
  \<comment> \<open>the pieces of a text between occurrences of a separator\<close>
  "split_on sep [] = [[]]"
| "split_on sep (c # cs) =
     (if c = sep then [] # split_on sep cs
      else (case split_on sep cs of t # ts \<Rightarrow> (c # t) # ts | [] \<Rightarrow> [[c]]))"

datatype instr = MoveTo string string | LineTo string string | ClosePath

definition parse_coord :: "string \<Rightarrow> (string \<times> string) option" where
  "parse_coord t = (case split_on CHR '','' t of [a, b] \<Rightarrow> Some (a, b) | _ \<Rightarrow> None)"

fun parse_instrs :: "string list \<Rightarrow> instr list option" where
  "parse_instrs [] = Some []"
| "parse_instrs [t] = (if t = ''Z'' then Some [ClosePath] else None)"
| "parse_instrs (t # c # ts) =
     (if t = ''Z'' then map_option (Cons ClosePath) (parse_instrs (c # ts))
      else if t = ''M'' then
        (case parse_coord c of
           Some (a, b) \<Rightarrow> map_option (Cons (MoveTo a b)) (parse_instrs ts)
         | None \<Rightarrow> None)
      else if t = ''L'' then
        (case parse_coord c of
           Some (a, b) \<Rightarrow> map_option (Cons (LineTo a b)) (parse_instrs ts)
         | None \<Rightarrow> None)
      else None)"

definition read_path :: "string \<Rightarrow> instr list option" where
  \<comment> \<open>path data as a list of move-to, line-to and close instructions\<close>
  "read_path d = parse_instrs (split_on CHR '' '' d)"

definition plain_text :: "(real \<Rightarrow> string) \<Rightarrow> bool" where
  \<comment> \<open>the text of a number holds neither a blank nor a comma\<close>
  "plain_text fmt = (\<forall>v. CHR '' '' \<notin> set (fmt v) \<and> CHR '','' \<notin> set (fmt v))"

fun after_text :: "string \<Rightarrow> string \<Rightarrow> string option" where
  \<comment> \<open>what follows the first occurrence of \<open>pat\<close>\<close>
  "after_text pat [] = (if pat = [] then Some [] else None)"
| "after_text pat (c # cs) =
     (if take (length pat) (c # cs) = pat then Some (drop (length pat) (c # cs))
      else after_text pat cs)"

definition attr :: "string \<Rightarrow> string \<Rightarrow> string option" where
  \<comment> \<open>the value of the first attribute \<open>name\<close> of a document\<close>
  \<open>attr name doc =
     map_option (takeWhile (\<lambda>c. c \<noteq> CHR 0x22)) (after_text ('' '' @ name @ ''="'') doc)\<close>

definition framed :: "string \<Rightarrow> bool" where
  \<comment> \<open>the document declares a width, a height and the view box \<open>0 0 width height\<close>\<close>
  "framed doc =
     (case (attr ''width'' doc, attr ''height'' doc, attr ''viewBox'' doc) of
        (Some a, Some b, Some v) \<Rightarrow> v = ''0 0 '' @ a @ '' '' @ b
      | _ \<Rightarrow> False)"

fun framed_event :: "event \<Rightarrow> bool" where
  "framed_event (WriteFile p doc) = framed doc"
| "framed_event (MakeDirs p) = True"
| "framed_event (WriteBroken p) = True"
| "framed_event (Print s) = True"

section \<open>Runs of the generator\<close>

text \<open>
  The calls of \<^verbatim>\<open>create_svg\<close> that \<^verbatim>\<open>generate_assets\<close> makes, in order, as data; running them
  one after the other is \<open>generate_assets\<close> after its directory step (lemma
  \<open>generate_assets_run\<close>).
\<close>

type_synonym call = "string \<times> int \<times> int \<times> string"

definition asset_names :: "string list" where
  "asset_names =
     [''nebula-x-mark.svg'', ''nebula-x-splash.svg'', ''nebula-x-wordmark.svg'',
      ''nebula-x-logo-light.svg'', ''nebula-x-logo-dark.svg'',
      ''nebula-x-logo-ornate-light.svg'', ''nebula-x-logo-ornate-dark.svg'',
      ''space-bg-pattern.svg'', ''favicon.svg'']"

definition asset_calls :: "(real \<Rightarrow> string) \<Rightarrow> call list" where
  "asset_calls fmt =
     [(''nebula-x-mark.svg'', 100, 100, mark_content fmt),
      (''nebula-x-splash.svg'', 400, 400, splash_content fmt),
      (''nebula-x-wordmark.svg'', py_int (wordmark_width fmt), 60, wordmark_content fmt),
      (''nebula-x-logo-light.svg'', py_int (logo_width fmt), 80, logo_light_content fmt),
      (''nebula-x-logo-dark.svg'', py_int (logo_width fmt), 80, logo_dark_content fmt),
      (''nebula-x-logo-ornate-light.svg'', py_int (logo_width fmt), 80,
         ''<g>'' @ logo_light_content fmt @ ornate_blobs fmt @ ''</g>''),
      (''nebula-x-logo-ornate-dark.svg'', py_int (logo_width fmt), 80,
         ''<g>'' @ logo_dark_content fmt @ ornate_blobs fmt @ ''</g>''),
      (''space-bg-pattern.svg'', 400, 400, pattern_content),
      (''favicon.svg'', 100, 100, mark_content fmt)]"

fun run_calls :: "env \<Rightarrow> call list \<Rightarrow> world \<Rightarrow> outcome" where
  "run_calls en [] w = Inr w"
| "run_calls en ((n, wd, h, c) # cs) w = and_then (create_svg en n wd h c w) (run_calls en cs)"

definition asset_path :: "string \<Rightarrow> string" where
  "asset_path n = path_join OUTPUT_DIR n"

fun call_path :: "call \<Rightarrow> string" where
  "call_path (n, wd, h, c) = asset_path n"

fun call_doc :: "call \<Rightarrow> string" where
  "call_doc (n, wd, h, c) = svg_text wd h c"

fun call_events :: "call \<Rightarrow> event list" where
  "call_events (n, wd, h, c) =
     [WriteFile (asset_path n) (svg_text wd h c), Print (''Created '' @ n)]"

fun written :: "call list \<Rightarrow> world \<Rightarrow> world" where
  \<comment> \<open>the world after the calls, when every one of them succeeds\<close>
  "written [] w = w"
| "written (c # cs) w =
     written cs (w\<lparr>files := (files w)(call_path c \<mapsto> call_doc c),
                    trace := trace w @ call_events c\<rparr>)"

definition ensured :: "world \<Rightarrow> world" where
  \<comment> \<open>the world after the directory step, when it succeeds\<close>
  "ensured w =
     (if path_exists w OUTPUT_DIR then w
      else w\<lparr>dirs := insert OUTPUT_DIR (dirs w), trace := trace w @ [MakeDirs OUTPUT_DIR]\<rparr>)"

fun written_paths :: "event list \<Rightarrow> string list" where
  \<comment> \<open>the paths of the completed writes among some events, in order\<close>
  "written_paths [] = []"
| "written_paths (WriteFile p d # es) = p # written_paths es"
| "written_paths (e # es) = written_paths es"

fun final :: "outcome \<Rightarrow> world" where
  \<comment> \<open>the world a run leaves behind, whether it ended normally or by an exception\<close>
  "final (Inl (e, w)) = w"
| "final (Inr w) = w"

definition call_ready :: "env \<Rightarrow> world \<Rightarrow> string \<Rightarrow> bool" where
  \<comment> \<open>a file of this name in the output directory can be written\<close>
  "call_ready en w n =
     (CHR ''/'' \<notin> set n \<and> asset_path n \<notin> dirs w \<and> write_result en (asset_path n) = Written)"

definition env_ok :: "env \<Rightarrow> bool" where
  \<comment> \<open>the operating system lets the directory be made and every asset be written\<close>
  "env_ok en =
     (makedirs_result en OUTPUT_DIR = None \<and>
      list_all (\<lambda>n. write_result en (asset_path n) = Written) asset_names)"

definition no_dir_clash :: "world \<Rightarrow> bool" where
  \<comment> \<open>no asset's path is taken by a directory\<close>
  "no_dir_clash w = list_all (\<lambda>n. asset_path n \<notin> dirs w) asset_names"

definition dir_ready :: "world \<Rightarrow> bool" where
  \<comment> \<open>the output directory is a directory, or nothing has its name\<close>
  "dir_ready w = (OUTPUT_DIR \<in> dirs w \<or> files w OUTPUT_DIR = None)"

definition env_fine :: env where
  "env_fine = \<lparr>makedirs_result = (\<lambda>p. None), write_result = (\<lambda>p. Written)\<rparr>"

definition env_wordmark_denied :: env where
  \<comment> \<open>the third asset cannot be opened for writing\<close>
  "env_wordmark_denied =
     \<lparr>makedirs_result = (\<lambda>p. None),
      write_result = (\<lambda>p. if p = ''nebula-x-assets/nebula-x-wordmark.svg''
                           then OpenFails (OSError 13 p) else Written)\<rparr>"

definition world_splash_is_dir :: world where
  \<comment> \<open>the output directory exists and holds a directory named like the second asset\<close>
  "world_splash_is_dir =
     \<lparr>dirs = {''nebula-x-assets'', ''nebula-x-assets/nebula-x-splash.svg''},
      files = Map.empty, trace = []\<rparr>"

definition world_dir_is_file :: world where
  \<comment> \<open>a regular file has the name of the output directory\<close>
  "world_dir_is_file =
     \<lparr>dirs = {}, files = [''nebula-x-assets'' \<mapsto> ''''], trace = []\<rparr>"

definition world_empty :: world where
  "world_empty = \<lparr>dirs = {}, files = Map.empty, trace = []\<rparr>"

section \<open>Properties of the path expression\<close>

lemma nat_str_small: "n < 10 \<Longrightarrow> nat_str n = [digit_char n]"
  by (simp add: nat_str.simps)

lemma nat_str_big: "10 \<le> n \<Longrightarrow> nat_str n = nat_str (n div 10) @ [digit_char (n mod 10)]"
  by (subst nat_str.simps) simp

lemma digit_char_digit: "d < 10 \<Longrightarrow> digit_char d \<in> set ''0123456789''"
proof -
  assume "d < 10"
  then have "d \<in> {0, 1, 2, 3, 4, 5, 6, 7, 8, 9}" by auto
  then show ?thesis unfolding digit_char_def by auto
qed

lemma nat_str_digits: "set (nat_str n) \<subseteq> set ''0123456789''"
proof (induction n rule: nat_str.induct)
  case (1 n)
  show ?case
  proof (cases "n < 10")
    case True
    then show ?thesis using digit_char_digit [of n] by (simp add: nat_str_small)
  next
    case False
    have "n mod 10 < 10" by simp
    then have "digit_char (n mod 10) \<in> set ''0123456789''" by (rule digit_char_digit)
    moreover have "set (nat_str (n div 10)) \<subseteq> set ''0123456789''" using 1 False by simp
    ultimately show ?thesis using False by (simp add: nat_str_big)
  qed
qed

lemma nat_str_plain: "CHR '' '' \<notin> set (nat_str n) \<and> CHR '','' \<notin> set (nat_str n)"
  using nat_str_digits [of n] by auto

lemma digit_char_plain: "d < 10 \<Longrightarrow> CHR '' '' \<noteq> digit_char d \<and> CHR '','' \<noteq> digit_char d"
  using digit_char_digit [of d] by auto

lemma plain_text_float_text: "plain_text float_text"
proof -
  have "CHR '' '' \<notin> set (float_text v) \<and> CHR '','' \<notin> set (float_text v)" for v
  proof -
    have a: "nat \<lfloor>\<bar>v\<bar> * 10\<rfloor> mod 10 < 10" by simp
    show ?thesis
      unfolding float_text_def Let_def
      using nat_str_plain [of "nat \<lfloor>\<bar>v\<bar>\<rfloor>"] digit_char_plain [OF a]
      by simp
  qed
  then show ?thesis unfolding plain_text_def by blast
qed

lemma split_on_nonempty: "split_on sep xs \<noteq> []"
  by (induction xs) (auto split: list.splits)

lemma split_on_none: "sep \<notin> set a \<Longrightarrow> split_on sep a = [a]"
  by (induction a) auto

lemma split_on_first: "sep \<notin> set a \<Longrightarrow> split_on sep (a @ sep # r) = a # split_on sep r"
  by (induction a) auto

lemma split_on_joined:
  assumes "\<forall>c \<in> set (x # cs). CHR '' '' \<notin> set c"
  shows "split_on CHR '' '' (join '' L '' (x # cs) @ '' Z'') =
           x # concat (map (\<lambda>c. [''L'', c]) cs) @ [''Z'']"
  using assms
proof (induction cs arbitrary: x)
  case Nil
  then have "CHR '' '' \<notin> set x" by simp
  then have "split_on CHR '' '' (x @ CHR '' '' # ''Z'') = x # split_on CHR '' '' ''Z''"
    by (rule split_on_first)
  then show ?case by simp
next
  case (Cons y ys)
  then have x: "CHR '' '' \<notin> set x" and rest: "\<forall>c \<in> set (y # ys). CHR '' '' \<notin> set c"
    by simp_all
  have "split_on CHR '' '' (x @ CHR '' '' # (''L '' @ join '' L '' (y # ys) @ '' Z'')) =
          x # split_on CHR '' '' (''L '' @ join '' L '' (y # ys) @ '' Z'')"
    using x by (rule split_on_first)
  moreover have "split_on CHR '' '' (''L '' @ join '' L '' (y # ys) @ '' Z'') =
          ''L'' # split_on CHR '' '' (join '' L '' (y # ys) @ '' Z'')"
    using split_on_first [of "CHR '' ''" "''L''" "join '' L '' (y # ys) @ '' Z''"] by simp
  ultimately show ?case using Cons.IH [OF rest] by simp
qed

lemma coord_no_blank: "plain_text fmt \<Longrightarrow> CHR '' '' \<notin> set (coord fmt s ox oy p)"
  by (simp add: plain_text_def coord_def)

lemma parse_coord_coord:
  assumes "plain_text fmt"
  shows "parse_coord (coord fmt s ox oy p) = Some (fmt (fst p * s + ox), fmt (snd p * s + oy))"
proof -
  have a: "CHR '','' \<notin> set (fmt (fst p * s + ox))" and b: "CHR '','' \<notin> set (fmt (snd p * s + oy))"
    using assms by (simp_all add: plain_text_def)
  have "split_on CHR '','' (fmt (fst p * s + ox) @ CHR '','' # fmt (snd p * s + oy)) =
          fmt (fst p * s + ox) # split_on CHR '','' (fmt (snd p * s + oy))"
    using a by (rule split_on_first)
  then show ?thesis using split_on_none [OF b] by (simp add: parse_coord_def coord_def)
qed

lemma parse_lines:
  assumes "plain_text fmt"
  shows "parse_instrs (concat (map (\<lambda>c. [''L'', c]) (map (coord fmt s ox oy) ps)) @ [''Z'']) =
           Some (map (\<lambda>q. LineTo (fmt (fst q * s + ox)) (fmt (snd q * s + oy))) ps @ [ClosePath])"
  by (induction ps) (simp_all add: parse_coord_coord [OF assms])

lemma read_path_d:
  assumes "plain_text fmt"
  shows "read_path (path_d fmt (p # ps) s ox oy) =
           Some (MoveTo (fmt (fst p * s + ox)) (fmt (snd p * s + oy)) #
                 map (\<lambda>q. LineTo (fmt (fst q * s + ox)) (fmt (snd q * s + oy))) ps @ [ClosePath])"
proof -
  let ?cs = "map (coord fmt s ox oy) ps"
  have nb: "\<forall>c \<in> set (coord fmt s ox oy p # ?cs). CHR '' '' \<notin> set c"
    using coord_no_blank [OF assms] by auto
  have "split_on CHR '' '' (path_d fmt (p # ps) s ox oy) =
          ''M'' # split_on CHR '' '' (join '' L '' (coord fmt s ox oy p # ?cs) @ '' Z'')"
    using split_on_first [of "CHR '' ''" "''M''" "join '' L '' (coord fmt s ox oy p # ?cs) @ '' Z''"]
    by (simp add: path_d_def)
  then have "split_on CHR '' '' (path_d fmt (p # ps) s ox oy) =
          ''M'' # coord fmt s ox oy p # concat (map (\<lambda>c. [''L'', c]) ?cs) @ [''Z'']"
    using split_on_joined [OF nb] by simp
  then show ?thesis
    using parse_lines [OF assms, of s ox oy ps] parse_coord_coord [OF assms, of s ox oy p]
    by (simp add: read_path_def)
qed

lemma get_n_mark_path_path_d:
  "get_n_mark_path fmt scale ox oy = path_d fmt n_mark_points scale ox oy"
  by (simp add: get_n_mark_path_def path_d_def)

text \<open>
  Claim C2, as stated, fails: the first point of the N outline is \<open>(0, 100)\<close>, not
  \<open>(0, 0)\<close>, and with scale 0.8 and offset (10, 10) the path starts with a move-to at
  (10.0, 90.0), not at (10.0, 10.0).
\<close>

theorem mark_first_point_counterexample:
  "n_mark_points ! 0 = (0, 100) \<and> n_mark_points ! 0 \<noteq> (0, 0) \<and>
   map_option hd (read_path (get_n_mark_path float_text 0.8 10 10)) = Some (MoveTo ''10.0'' ''90.0'') \<and>
   MoveTo ''10.0'' ''90.0'' \<noteq> MoveTo ''10.0'' ''10.0''"
proof -
  have "read_path (path_d float_text ((0, 100) # tl n_mark_points) 0.8 10 10) =
          Some (MoveTo (float_text (fst (0::real, 100::real) * 0.8 + 10))
                       (float_text (snd (0::real, 100::real) * 0.8 + 10)) #
                map (\<lambda>q. LineTo (float_text (fst q * 0.8 + 10)) (float_text (snd q * 0.8 + 10)))
                  (tl n_mark_points) @ [ClosePath])"
    by (rule read_path_d [OF plain_text_float_text])
  moreover have "(0, 100) # tl n_mark_points = n_mark_points"
    by (simp add: n_mark_points_def)
  ultimately have "map_option hd (read_path (get_n_mark_path float_text 0.8 10 10)) =
          Some (MoveTo (float_text (0 * 0.8 + 10)) (float_text (100 * 0.8 + 10)))"
    by (simp add: get_n_mark_path_path_d)
  moreover have "float_text (0 * 0.8 + 10) = ''10.0''" and "float_text (100 * 0.8 + 10) = ''90.0''"
    by (simp_all add: float_text_def nat_str_small nat_str_big digit_char_def)
  ultimately show ?thesis by (simp add: n_mark_points_def)
qed

text \<open>
  Claim C2, amended.  The N outline has ten points; its first point is \<open>(0, 100)\<close> and its
  second is \<open>(0, 0)\<close>.  With scale 0.8 and offset (10, 10) the mark's path visits
  (10, 90) first, the image of \<open>(0, 100)\<close>, and (10, 10) second, the image of \<open>(0, 0)\<close>; the
  whole path is the one given here.
\<close>

theorem mark_path_transformed:
  "length n_mark_points = 10 \<and> n_mark_points ! 0 = (0, 100) \<and> n_mark_points ! 1 = (0, 0) \<and>
   get_n_mark_path fmt 0.8 10 10 =
     ''M '' @ join '' L '' (map (\<lambda>(x, y). fmt x @ '','' @ fmt y)
        [(10, 90), (10, 10), (34, 10), (66, 66), (66, 10), (90, 10), (90, 90), (66, 90),
         (34, 34), (34, 90)]) @ '' Z''"
  by (simp add: get_n_mark_path_def n_mark_points_def coord_def)


section \<open>Properties of the letterforms\<close>

lemma colors_found:
  "map_of COLORS ''Deep Space'' = Some ''#0B0D17''"
  "map_of COLORS ''Space Navy'' = Some ''#111827''"
  "map_of COLORS ''Nebula Purple'' = Some ''#7C3AED''"
  "map_of COLORS ''Cosmic Cyan'' = Some ''#06B6D4''"
  "map_of COLORS ''Stellar Gold'' = Some ''#F59E0B''"
  "map_of COLORS ''Starlight White'' = Some ''#F1F5F9''"
  by (simp_all add: COLORS_def)

lemma get_wordmark_paths_width:
  "snd (get_wordmark_paths fmt scale sx sy) =
     sx + 120 * scale + 100 * scale + 100 * scale + 100 * scale + 100 * scale + 120 * scale +
     40 * scale + 120 * scale"
  by (simp add: get_wordmark_paths_def Let_def)

text \<open>
  Claim C5.  Each of the ten polygon literals of the program (the N outline and the nine
  letterform contours) is non-empty with a last point different from its first.  Every path
  expression starts with a move-to and ends with the close instruction \<open>Z\<close>; the mark's path
  is one such expression.  The wordmark is seven path elements: N, E, U, L and X hold one
  contour each; B holds its outer contour followed by its two inner contours and A its outer
  contour followed by its inner one, each contour a closed subpath of its own in the single
  element, and exactly these two elements carry \<open>fill-rule="evenodd"\<close>.
\<close>

theorem contours_closed_holes_evenodd:
  \<open>list_all (\<lambda>ps. ps \<noteq> [] \<and> hd ps \<noteq> last ps)
     [n_mark_points, pts_e, pts_b_out, pts_b_in1, pts_b_in2, pts_u, pts_l, pts_a_out, pts_a_in,
      pts_x]
   \<and> take 2 (path_d fmt ps s ox oy) = ''M ''
   \<and> drop (length (path_d fmt ps s ox oy) - 2) (path_d fmt ps s ox oy) = '' Z''
   \<and> get_n_mark_path fmt s ox oy = path_d fmt n_mark_points s ox oy
   \<and> fst (get_wordmark_paths fmt s x y) =
       ''<path d="'' @ path_d fmt n_mark_points s x y @ ''" fill="currentColor" />'' @
       ''<path d="'' @ path_d fmt pts_e s (x + 120 * s) y @ ''" fill="currentColor" />'' @
       ''<path d="'' @ path_d fmt pts_b_out s (x + 120 * s + 100 * s) y @ '' '' @
                       path_d fmt pts_b_in1 s (x + 120 * s + 100 * s) y @ '' '' @
                       path_d fmt pts_b_in2 s (x + 120 * s + 100 * s) y @
         ''" fill-rule="evenodd" fill="currentColor" />'' @
       ''<path d="'' @ path_d fmt pts_u s (x + 120 * s + 100 * s + 100 * s) y @
         ''" fill="currentColor" />'' @
       ''<path d="'' @ path_d fmt pts_l s (x + 120 * s + 100 * s + 100 * s + 100 * s) y @
         ''" fill="currentColor" />'' @
       ''<path d="'' @ path_d fmt pts_a_out s (x + 120 * s + 100 * s + 100 * s + 100 * s + 100 * s) y @
                '' '' @ path_d fmt pts_a_in s (x + 120 * s + 100 * s + 100 * s + 100 * s + 100 * s) y @
         ''" fill-rule="evenodd" fill="currentColor" />'' @
       ''<path d="'' @
         path_d fmt pts_x s
           (x + 120 * s + 100 * s + 100 * s + 100 * s + 100 * s + 120 * s + 40 * s) y @
         ''" fill="currentColor" />''\<close>
proof -
  have a: "list_all (\<lambda>ps. ps \<noteq> [] \<and> hd ps \<noteq> last ps)
     [n_mark_points, pts_e, pts_b_out, pts_b_in1, pts_b_in2, pts_u, pts_l, pts_a_out, pts_a_in,
      pts_x]"
    by (simp add: n_mark_points_def pts_e_def pts_b_out_def pts_b_in1_def pts_b_in2_def pts_u_def
        pts_l_def pts_a_out_def pts_a_in_def pts_x_def)
  have b: "take 2 (path_d fmt ps s ox oy) = ''M ''"
    by (simp add: path_d_def)
  have c: "drop (length (path_d fmt ps s ox oy) - 2) (path_d fmt ps s ox oy) = '' Z''"
    by (simp add: path_d_def)
  have d: "get_n_mark_path fmt s ox oy = path_d fmt n_mark_points s ox oy"
    by (simp add: get_n_mark_path_def path_d_def)
  have e: \<open>fst (get_wordmark_paths fmt s x y) =
       ''<path d="'' @ path_d fmt n_mark_points s x y @ ''" fill="currentColor" />'' @
       ''<path d="'' @ path_d fmt pts_e s (x + 120 * s) y @ ''" fill="currentColor" />'' @
       ''<path d="'' @ path_d fmt pts_b_out s (x + 120 * s + 100 * s) y @ '' '' @
                       path_d fmt pts_b_in1 s (x + 120 * s + 100 * s) y @ '' '' @
                       path_d fmt pts_b_in2 s (x + 120 * s + 100 * s) y @
         ''" fill-rule="evenodd" fill="currentColor" />'' @
       ''<path d="'' @ path_d fmt pts_u s (x + 120 * s + 100 * s + 100 * s) y @
         ''" fill="currentColor" />'' @
       ''<path d="'' @ path_d fmt pts_l s (x + 120 * s + 100 * s + 100 * s + 100 * s) y @
         ''" fill="currentColor" />'' @
       ''<path d="'' @ path_d fmt pts_a_out s (x + 120 * s + 100 * s + 100 * s + 100 * s + 100 * s) y @
                '' '' @ path_d fmt pts_a_in s (x + 120 * s + 100 * s + 100 * s + 100 * s + 100 * s) y @
         ''" fill-rule="evenodd" fill="currentColor" />'' @
       ''<path d="'' @
         path_d fmt pts_x s
           (x + 120 * s + 100 * s + 100 * s + 100 * s + 100 * s + 120 * s + 40 * s) y @
         ''" fill="currentColor" />''\<close>
    unfolding get_wordmark_paths_def Let_def get_n_mark_path_def path_d_def by simp
  from a b c d e show ?thesis by blast
qed

section \<open>Properties of runs\<close>

lemma and_then_Inr [simp]: "and_then r Inr = r"
  by (cases r) simp_all

lemma run_calls_Nil_fun: "run_calls en [] = Inr"
  by (rule ext) simp

lemma run_calls_Cons_fun:
  "run_calls en ((n, wd, h, c) # cs) = (\<lambda>w. and_then (create_svg en n wd h c w) (run_calls en cs))"
  by (rule ext) simp

lemma generate_assets_run:
  "generate_assets en fmt w =
     and_then (if \<not> path_exists w OUTPUT_DIR then makedirs en OUTPUT_DIR w else Inr w)
       (run_calls en (asset_calls fmt))"
  unfolding generate_assets_def asset_calls_def run_calls_Cons_fun run_calls_Nil_fun
  by simp

lemma asset_calls_names: "map fst (asset_calls fmt) = asset_names"
  by (simp add: asset_calls_def asset_names_def)

lemma dirname_in_dir:
  assumes "CHR ''/'' \<notin> set n"
  shows "dirname (a @ CHR ''/'' # n) = a"
proof -
  have "dropWhile (\<lambda>c. c \<noteq> CHR ''/'') (rev n @ CHR ''/'' # rev a) = CHR ''/'' # rev a"
    using assms by (auto simp: dropWhile_append3)
  then show ?thesis by (simp add: dirname_def)
qed

lemma asset_path_plain:
  assumes "CHR ''/'' \<notin> set n"
  shows "asset_path n = OUTPUT_DIR @ CHR ''/'' # n"
proof -
  have "n = [] \<or> hd n \<noteq> CHR ''/''" using assms by (cases n) auto
  then show ?thesis by (auto simp: asset_path_def path_join_def OUTPUT_DIR_def)
qed

lemma dirname_asset_path: "CHR ''/'' \<notin> set n \<Longrightarrow> dirname (asset_path n) = OUTPUT_DIR"
  by (simp add: asset_path_plain dirname_in_dir)

lemma asset_path_not_dir: "asset_path n \<noteq> OUTPUT_DIR"
  by (auto simp: asset_path_def path_join_def OUTPUT_DIR_def)

lemma create_svg_ok:
  assumes "OUTPUT_DIR \<in> dirs w" and "CHR ''/'' \<notin> set n" and "asset_path n \<notin> dirs w"
    and "write_result en (asset_path n) = Written"
  shows "create_svg en n wd h c w =
           Inr (w\<lparr>files := (files w)(asset_path n \<mapsto> svg_text wd h c),
                  trace := trace w @ call_events (n, wd, h, c)\<rparr>)"
  using assms dirname_asset_path [OF assms(2)]
  by (simp add: create_svg_def Let_def dir_exists_def asset_path_def [symmetric])

lemma written_dirs [simp]: "dirs (written cs w) = dirs w"
  by (induction cs arbitrary: w) simp_all

lemma written_trace: "trace (written cs w) = trace w @ concat (map call_events cs)"
  by (induction cs arbitrary: w) simp_all

lemma written_files:
  "files (written cs w) = files w ++ map_of (rev (map (\<lambda>c. (call_path c, call_doc c)) cs))"
proof (induction cs arbitrary: w)
  case Nil
  then show ?case by simp
next
  case (Cons c cs)
  show ?case
    by (rule ext) (simp add: Cons.IH map_add_def map_of_append split: option.splits)
qed

lemma written_append: "written (xs @ ys) w = written ys (written xs w)"
  by (induction xs arbitrary: w) simp_all

lemma call_ready_update [simp]:
  "call_ready en (w\<lparr>files := f, trace := t\<rparr>) = call_ready en w"
  by (rule ext) (simp add: call_ready_def)

lemma run_calls_ok:
  assumes "OUTPUT_DIR \<in> dirs w" and "list_all (call_ready en w) (map fst cs)"
  shows "run_calls en cs w = Inr (written cs w)"
  using assms
proof (induction cs arbitrary: w)
  case Nil
  then show ?case by simp
next
  case (Cons c cs)
  obtain n wd h t where c: "c = (n, wd, h, t)" by (cases c) auto
  let ?w = "w\<lparr>files := (files w)(asset_path n \<mapsto> svg_text wd h t),
                trace := trace w @ call_events (n, wd, h, t)\<rparr>"
  have step: "create_svg en n wd h t w = Inr ?w"
    using Cons.prems by (simp add: c call_ready_def create_svg_ok)
  have "list_all (call_ready en ?w) (map fst cs)"
    using Cons.prems(2) by simp
  moreover have "OUTPUT_DIR \<in> dirs ?w" using Cons.prems(1) by simp
  ultimately have "run_calls en cs ?w = Inr (written cs ?w)" by (rule Cons.IH [rotated])
  then show ?case using step by (simp add: c)
qed

lemma asset_names_plain: "list_all (\<lambda>n. CHR ''/'' \<notin> set n) asset_names"
  by (simp add: asset_names_def)

lemma asset_paths_distinct: "distinct (map asset_path asset_names)"
  by (simp add: asset_names_def asset_path_def path_join_def OUTPUT_DIR_def)

lemma ensure_step:
  assumes "dir_ready w" and "makedirs_result en OUTPUT_DIR = None"
  shows "(if \<not> path_exists w OUTPUT_DIR then makedirs en OUTPUT_DIR w else Inr w) = Inr (ensured w)"
    and "OUTPUT_DIR \<in> dirs (ensured w)"
  using assms by (auto simp: dir_ready_def path_exists_def makedirs_def ensured_def)

lemma ensured_files [simp]: "files (ensured w) = files w"
  by (simp add: ensured_def)

lemma ensured_dirs: "dirs (ensured w) \<subseteq> insert OUTPUT_DIR (dirs w)"
  by (auto simp: ensured_def)

lemma ensured_ready:
  assumes "no_dir_clash w" and "n \<in> set asset_names" and "write_result en (asset_path n) = Written"
  shows "call_ready en (ensured w) n"
proof -
  have "CHR ''/'' \<notin> set n" using asset_names_plain assms(2) by (simp add: list_all_iff)
  moreover have "asset_path n \<notin> dirs w" using assms(1,2) by (simp add: no_dir_clash_def list_all_iff)
  then have "asset_path n \<notin> dirs (ensured w)" using ensured_dirs [of w] asset_path_not_dir [of n] by auto
  ultimately show ?thesis using assms(3) by (simp add: call_ready_def)
qed

lemma generate_assets_ok:
  assumes "env_ok en" and "no_dir_clash w" and "dir_ready w"
  shows "generate_assets en fmt w = Inr (written (asset_calls fmt) (ensured w))"
proof -
  have mk: "makedirs_result en OUTPUT_DIR = None" using assms(1) by (simp add: env_ok_def)
  have "list_all (call_ready en (ensured w)) (map fst (asset_calls fmt))"
    unfolding asset_calls_names list_all_iff
    using assms(1,2) ensured_ready by (auto simp: env_ok_def list_all_iff)
  then have "run_calls en (asset_calls fmt) (ensured w) = Inr (written (asset_calls fmt) (ensured w))"
    using ensure_step(2) [OF assms(3) mk] by (simp add: run_calls_ok)
  then show ?thesis
    unfolding generate_assets_run ensure_step(1) [OF assms(3) mk] by simp
qed

lemma written_paths_calls: "written_paths (concat (map call_events cs)) = map call_path cs"
  by (induction cs) auto

lemma call_paths: "map call_path cs = map asset_path (map fst cs)"
  by (induction cs) auto

lemma docs_dom:
  "map_of (rev (map (\<lambda>c. (call_path c, call_doc c)) cs)) p \<noteq> None \<longleftrightarrow> p \<in> set (map call_path cs)"
proof -
  have "dom (map_of (rev (map (\<lambda>c. (call_path c, call_doc c)) cs))) = call_path ` set cs"
    by (simp add: dom_map_of_conv_image_fst image_image)
  then show ?thesis by (auto simp: dom_def)
qed

lemma docs_lookup:
  assumes "distinct (map call_path cs)" and "c \<in> set cs"
  shows "map_of (rev (map (\<lambda>c. (call_path c, call_doc c)) cs)) (call_path c) = Some (call_doc c)"
proof (rule map_of_is_SomeI)
  have "map fst (rev (map (\<lambda>c. (call_path c, call_doc c)) cs)) = rev (map call_path cs)"
    by (simp add: rev_map comp_def)
  then show "distinct (map fst (rev (map (\<lambda>c. (call_path c, call_doc c)) cs)))"
    using assms(1) by simp
  show "(call_path c, call_doc c) \<in> set (rev (map (\<lambda>c. (call_path c, call_doc c)) cs))"
    using assms(2) by auto
qed

lemma asset_calls_distinct: "distinct (map call_path (asset_calls fmt))"
  using asset_paths_distinct by (simp add: call_paths asset_calls_names)

section \<open>Properties of the document frame\<close>

lemma takeWhile_upto:
  "c \<notin> set a \<Longrightarrow> takeWhile (\<lambda>x. x \<noteq> c) (a @ c # r) = a"
  by (induction a) auto

lemma after_text_skip:
  assumes "p \<notin> set a"
  shows "after_text (p # pat) (a @ r) = after_text (p # pat) r"
  using assms by (induction a) auto

lemma nat_str_no_quote: "CHR 0x22 \<notin> set (nat_str n) \<and> CHR '' '' \<notin> set (nat_str n)"
  using nat_str_digits [of n] by auto

lemma str_int_plain: "CHR 0x22 \<notin> set (str_int i)" "CHR '' '' \<notin> set (str_int i)"
  using nat_str_no_quote by (auto simp: str_int_def)

lemma attr_width: "attr ''width'' (svg_text wd h c) = Some (str_int wd)"
  using takeWhile_upto [OF str_int_plain(1) [of wd]]
  by (simp add: attr_def svg_text_def)

lemma attr_height: "attr ''height'' (svg_text wd h c) = Some (str_int h)"
proof -
  have \<open>after_text '' height="'' (str_int wd @ r) = after_text '' height="'' r\<close> for r
    using after_text_skip [OF str_int_plain(2) [of wd]] by simp
  then show ?thesis
    using takeWhile_upto [OF str_int_plain(1) [of h]]
    by (simp add: attr_def svg_text_def)
qed

lemma attr_viewBox:
  "attr ''viewBox'' (svg_text wd h c) = Some (''0 0 '' @ str_int wd @ '' '' @ str_int h)"
proof -
  have a: \<open>after_text '' viewBox="'' (str_int i @ r) = after_text '' viewBox="'' r\<close> for r i
    using after_text_skip [OF str_int_plain(2) [of i]] by simp
  have "CHR 0x22 \<notin> set (''0 0 '' @ str_int wd @ '' '' @ str_int h)"
    using str_int_plain(1) by simp
  then have b: "takeWhile (\<lambda>x. x \<noteq> CHR 0x22) ((''0 0 '' @ str_int wd @ '' '' @ str_int h) @ CHR 0x22 # r) =
      ''0 0 '' @ str_int wd @ '' '' @ str_int h" for r
    by (rule takeWhile_upto)
  show ?thesis
    using b by (simp add: attr_def svg_text_def a)
qed

lemma framed_svg_text: "framed (svg_text wd h c)"
  by (simp add: framed_def attr_width attr_height attr_viewBox)

lemma generate_assets_files:
  assumes "env_ok en" and "no_dir_clash w" and "dir_ready w"
  shows "files (final (generate_assets en fmt w)) =
           files w ++ map_of (rev (map (\<lambda>c. (call_path c, call_doc c)) (asset_calls fmt)))"
  by (simp add: generate_assets_ok [OF assms] written_files)

lemma generate_assets_file:
  assumes "env_ok en" and "no_dir_clash w" and "dir_ready w" and "c \<in> set (asset_calls fmt)"
  shows "files (final (generate_assets en fmt w)) (call_path c) = Some (call_doc c)"
  using docs_lookup [OF asset_calls_distinct assms(4)]
  by (simp add: generate_assets_files [OF assms(1-3)] map_add_def)

lemma fine_ok: "env_ok env_fine"
  by (simp add: env_ok_def env_fine_def asset_names_def)

lemma empty_ready: "no_dir_clash world_empty" "dir_ready world_empty" "\<not> path_exists world_empty OUTPUT_DIR"
  by (simp_all add: no_dir_clash_def dir_ready_def path_exists_def world_empty_def asset_names_def)

text \<open>
  Claim C6.  When the run succeeds, \<^verbatim>\<open>favicon.svg\<close> and \<^verbatim>\<open>nebula-x-mark.svg\<close> hold the same
  document: the one made from width 100, height 100 and the body \<open>mark_content\<close>, and it
  declares width 100 and height 100.
\<close>

theorem favicon_same_as_mark:
  assumes "env_ok en" and "no_dir_clash w" and "dir_ready w"
  shows "\<exists>w'. generate_assets en fmt w = Inr w' \<and>
           files w' (path_join OUTPUT_DIR ''favicon.svg'') = Some (svg_text 100 100 (mark_content fmt)) \<and>
           files w' (path_join OUTPUT_DIR ''nebula-x-mark.svg'') =
             Some (svg_text 100 100 (mark_content fmt)) \<and>
           attr ''width'' (svg_text 100 100 (mark_content fmt)) = Some ''100'' \<and>
           attr ''height'' (svg_text 100 100 (mark_content fmt)) = Some ''100''"
proof -
  let ?w = "written (asset_calls fmt) (ensured w)"
  have run: "generate_assets en fmt w = Inr ?w" by (rule generate_assets_ok [OF assms])
  have "(''favicon.svg'', 100, 100, mark_content fmt) \<in> set (asset_calls fmt)"
    by (simp add: asset_calls_def)
  from generate_assets_file [OF assms this]
  have fav: "files ?w (path_join OUTPUT_DIR ''favicon.svg'') = Some (svg_text 100 100 (mark_content fmt))"
    by (simp add: run asset_path_def)
  have "(''nebula-x-mark.svg'', 100, 100, mark_content fmt) \<in> set (asset_calls fmt)"
    by (simp add: asset_calls_def)
  from generate_assets_file [OF assms this]
  have mark: "files ?w (path_join OUTPUT_DIR ''nebula-x-mark.svg'') =
      Some (svg_text 100 100 (mark_content fmt))"
    by (simp add: run asset_path_def)
  have "str_int 100 = ''100''"
    by (simp add: str_int_def nat_str_small nat_str_big digit_char_def)
  then show ?thesis using run fav mark by (simp add: attr_width attr_height)
qed

theorem favicon_same_as_mark_witness:
  "env_ok env_fine \<and> no_dir_clash world_empty \<and> dir_ready world_empty \<and>
   (\<exists>w'. generate_assets env_fine float_text world_empty = Inr w' \<and>
      files w' ''nebula-x-assets/favicon.svg'' = files w' ''nebula-x-assets/nebula-x-mark.svg'' \<and>
      files w' ''nebula-x-assets/favicon.svg'' \<noteq> None)"
proof -
  obtain w' where "generate_assets env_fine float_text world_empty = Inr w'"
    and "files w' (path_join OUTPUT_DIR ''favicon.svg'') = Some (svg_text 100 100 (mark_content float_text))"
    and "files w' (path_join OUTPUT_DIR ''nebula-x-mark.svg'') =
             Some (svg_text 100 100 (mark_content float_text))"
    using favicon_same_as_mark [OF fine_ok empty_ready(1,2), of float_text] by blast
  then show ?thesis
    using fine_ok empty_ready by (auto simp: path_join_def OUTPUT_DIR_def)
qed

lemma ensured_fresh:
  assumes "\<not> path_exists w OUTPUT_DIR"
  shows "ensured w = w\<lparr>dirs := insert OUTPUT_DIR (dirs w), trace := trace w @ [MakeDirs OUTPUT_DIR]\<rparr>"
    and "dir_ready w"
  using assms by (simp_all add: ensured_def dir_ready_def path_exists_def)

text \<open>
  Claim C7.  \<open>generate_assets\<close> takes no argument of the caller's: besides the environment it
  runs in, nothing selects what it does.  When nothing named like the output directory exists
  and the operating system refuses nothing, the run ends normally; its first effect is making
  the directory, every write comes after it, in the order of the source, and afterwards the
  directory exists and holds a file under each expected name.  The eight numbered assets of the
  source are nine files: the sixth, the ornate logo, is written in a light and a dark variant.
\<close>

theorem generate_assets_makes_dir_first:
  assumes "\<not> path_exists w OUTPUT_DIR" and "env_ok en" and "no_dir_clash w"
  shows "\<exists>w' evs. generate_assets en fmt w = Inr w' \<and>
           OUTPUT_DIR \<in> dirs w' \<and>
           trace w' = trace w @ MakeDirs OUTPUT_DIR # evs \<and>
           written_paths evs =
             map (path_join OUTPUT_DIR)
               [''nebula-x-mark.svg'', ''nebula-x-splash.svg'', ''nebula-x-wordmark.svg'',
                ''nebula-x-logo-light.svg'', ''nebula-x-logo-dark.svg'',
                ''nebula-x-logo-ornate-light.svg'', ''nebula-x-logo-ornate-dark.svg'',
                ''space-bg-pattern.svg'', ''favicon.svg''] \<and>
           list_all (\<lambda>n. files w' (path_join OUTPUT_DIR n) \<noteq> None)
               [''nebula-x-mark.svg'', ''nebula-x-splash.svg'', ''nebula-x-wordmark.svg'',
                ''nebula-x-logo-light.svg'', ''nebula-x-logo-dark.svg'',
                ''nebula-x-logo-ornate-light.svg'', ''nebula-x-logo-ornate-dark.svg'',
                ''space-bg-pattern.svg'', ''favicon.svg'']"
proof -
  let ?w = "written (asset_calls fmt) (ensured w)"
  let ?evs = "concat (map call_events (asset_calls fmt))"
  note ready = ensured_fresh(2) [OF assms(1)]
  have run: "generate_assets en fmt w = Inr ?w"
    by (rule generate_assets_ok [OF assms(2,3) ready])
  have dir: "OUTPUT_DIR \<in> dirs ?w"
    by (simp add: ensured_fresh(1) [OF assms(1)])
  have tr: "trace ?w = trace w @ MakeDirs OUTPUT_DIR # ?evs"
    by (simp add: written_trace ensured_fresh(1) [OF assms(1)])
  have paths: "written_paths ?evs = map (path_join OUTPUT_DIR) asset_names"
    by (simp add: written_paths_calls call_paths asset_calls_names asset_path_def [abs_def])
  have "files ?w (asset_path n) \<noteq> None" if "n \<in> set asset_names" for n
  proof -
    have "asset_path n \<in> set (map call_path (asset_calls fmt))"
      using that by (simp add: call_paths asset_calls_names)
    then have "map_of (rev (map (\<lambda>c. (call_path c, call_doc c)) (asset_calls fmt))) (asset_path n) \<noteq> None"
      by (simp only: docs_dom)
    then show ?thesis by (auto simp: written_files map_add_def split: option.splits)
  qed
  then have present: "list_all (\<lambda>n. files ?w (path_join OUTPUT_DIR n) \<noteq> None) asset_names"
    by (simp add: list_all_iff asset_path_def)
  show ?thesis
    using run dir tr paths present unfolding asset_names_def by blast
qed

theorem generate_assets_makes_dir_first_witness:
  "\<not> path_exists world_empty OUTPUT_DIR \<and> env_ok env_fine \<and> no_dir_clash world_empty \<and>
   (\<exists>w' evs. generate_assets env_fine float_text world_empty = Inr w' \<and>
      ''nebula-x-assets'' \<in> dirs w' \<and>
      trace w' = MakeDirs ''nebula-x-assets'' # evs \<and>
      files w' ''nebula-x-assets/nebula-x-mark.svg'' \<noteq> None \<and>
      files w' ''nebula-x-assets/space-bg-pattern.svg'' \<noteq> None \<and>
      files w' ''nebula-x-assets/favicon.svg'' \<noteq> None)"
proof -
  obtain w' evs where "generate_assets env_fine float_text world_empty = Inr w'"
    and "OUTPUT_DIR \<in> dirs w'"
    and "trace w' = trace world_empty @ MakeDirs OUTPUT_DIR # evs"
    and "list_all (\<lambda>n. files w' (path_join OUTPUT_DIR n) \<noteq> None)
               [''nebula-x-mark.svg'', ''nebula-x-splash.svg'', ''nebula-x-wordmark.svg'',
                ''nebula-x-logo-light.svg'', ''nebula-x-logo-dark.svg'',
                ''nebula-x-logo-ornate-light.svg'', ''nebula-x-logo-ornate-dark.svg'',
                ''space-bg-pattern.svg'', ''favicon.svg'']"
    using generate_assets_makes_dir_first [OF empty_ready(3) fine_ok empty_ready(1), of float_text]
    by blast
  then show ?thesis
    using fine_ok empty_ready by (auto simp: path_join_def OUTPUT_DIR_def world_empty_def)
qed

lemma map_add_twice: "(f ++ g) ++ g = f ++ g"
  by (rule ext) (simp add: map_add_def split: option.splits)

lemma written_ready:
  assumes "no_dir_clash w"
  shows "no_dir_clash (written cs (ensured w))"
proof -
  have "asset_path n \<notin> dirs (ensured w)" if "asset_path n \<notin> dirs w" for n
    using that ensured_dirs [of w] asset_path_not_dir [of n] by auto
  then show ?thesis using assms by (simp add: no_dir_clash_def list_all_iff)
qed

text \<open>
  Claim C4.  The documents depend on nothing but the fixed literals (and the runtime's number
  text \<open>fmt\<close>): two runs that succeed, from any two worlds and under any two environments,
  leave the same text in every asset file.  A run over the world that a run has left behind,
  with the directory there and every file already written, succeeds again and leaves every file
  of the directory as it was: each asset file is overwritten with the text it already had.
\<close>

theorem generate_assets_deterministic:
  assumes "env_ok en1" and "env_ok en2"
    and "no_dir_clash w1" and "no_dir_clash w2"
    and "dir_ready w1" and "dir_ready w2"
  shows "\<exists>v1 v2 v3.
           generate_assets en1 fmt w1 = Inr v1 \<and> generate_assets en2 fmt w2 = Inr v2 \<and>
           list_all (\<lambda>n. files v1 (path_join OUTPUT_DIR n) \<noteq> None \<and>
                         files v1 (path_join OUTPUT_DIR n) = files v2 (path_join OUTPUT_DIR n))
             asset_names \<and>
           generate_assets en2 fmt v1 = Inr v3 \<and> files v3 = files v1 \<and> dirs v3 = dirs v1"
proof -
  let ?docs = "map_of (rev (map (\<lambda>c. (call_path c, call_doc c)) (asset_calls fmt)))"
  let ?v1 = "written (asset_calls fmt) (ensured w1)"
  let ?v2 = "written (asset_calls fmt) (ensured w2)"
  let ?v3 = "written (asset_calls fmt) (ensured ?v1)"
  have mk: "makedirs_result en1 OUTPUT_DIR = None" using assms(1) by (simp add: env_ok_def)
  have run1: "generate_assets en1 fmt w1 = Inr ?v1" by (rule generate_assets_ok [OF assms(1,3,5)])
  have run2: "generate_assets en2 fmt w2 = Inr ?v2" by (rule generate_assets_ok [OF assms(2,4,6)])
  have in_dir: "OUTPUT_DIR \<in> dirs ?v1" using ensure_step(2) [OF assms(5) mk] by simp
  then have ready: "dir_ready ?v1" and same: "ensured ?v1 = ?v1"
    by (simp_all add: dir_ready_def ensured_def path_exists_def)
  have run3: "generate_assets en2 fmt ?v1 = Inr ?v3"
    by (rule generate_assets_ok [OF assms(2) written_ready [OF assms(3)] ready])
  have "files ?v1 (asset_path n) \<noteq> None \<and> files ?v1 (asset_path n) = files ?v2 (asset_path n)"
    if "n \<in> set asset_names" for n
  proof -
    have "asset_path n \<in> set (map call_path (asset_calls fmt))"
      using that by (simp add: call_paths asset_calls_names)
    then have "?docs (asset_path n) \<noteq> None" by (simp only: docs_dom)
    then show ?thesis by (auto simp: written_files map_add_def split: option.splits)
  qed
  then have eq: "list_all (\<lambda>n. files ?v1 (path_join OUTPUT_DIR n) \<noteq> None \<and>
                         files ?v1 (path_join OUTPUT_DIR n) = files ?v2 (path_join OUTPUT_DIR n))
             asset_names"
    unfolding list_all_iff asset_path_def by blast
  have "files (written (asset_calls fmt) ?v1) = files ?v1"
    by (simp add: written_files [of _ ?v1] written_files [of _ "ensured w1"] map_add_twice)
  then have f3: "files ?v3 = files ?v1" by (simp only: same)
  have d3: "dirs ?v3 = dirs ?v1" by (simp add: same)
  show ?thesis using run1 run2 eq run3 f3 d3 by blast
qed

theorem generate_assets_deterministic_witness:
  "env_ok env_fine \<and> no_dir_clash world_empty \<and> dir_ready world_empty \<and>
   no_dir_clash (world_empty\<lparr>dirs := {''nebula-x-assets''},
                              files := [''nebula-x-assets/favicon.svg'' \<mapsto> ''old'']\<rparr>) \<and>
   dir_ready (world_empty\<lparr>dirs := {''nebula-x-assets''},
                           files := [''nebula-x-assets/favicon.svg'' \<mapsto> ''old'']\<rparr>) \<and>
   (\<exists>v1 v2. generate_assets env_fine float_text world_empty = Inr v1 \<and>
      generate_assets env_fine float_text
        (world_empty\<lparr>dirs := {''nebula-x-assets''},
                      files := [''nebula-x-assets/favicon.svg'' \<mapsto> ''old'']\<rparr>) = Inr v2 \<and>
      files v1 ''nebula-x-assets/favicon.svg'' = files v2 ''nebula-x-assets/favicon.svg'' \<and>
      files v1 ''nebula-x-assets/favicon.svg'' \<noteq> None)"
proof -
  let ?w2 = "world_empty\<lparr>dirs := {''nebula-x-assets''},
                          files := [''nebula-x-assets/favicon.svg'' \<mapsto> ''old'']\<rparr>"
  have c: "no_dir_clash ?w2" and r: "dir_ready ?w2"
    by (simp_all add: no_dir_clash_def dir_ready_def world_empty_def asset_names_def asset_path_def
        path_join_def OUTPUT_DIR_def)
  obtain v1 v2 where run1: "generate_assets env_fine float_text world_empty = Inr v1"
    and run2: "generate_assets env_fine float_text ?w2 = Inr v2"
    and every: "list_all (\<lambda>n. files v1 (path_join OUTPUT_DIR n) \<noteq> None \<and>
                         files v1 (path_join OUTPUT_DIR n) = files v2 (path_join OUTPUT_DIR n))
             asset_names"
    using generate_assets_deterministic [OF fine_ok fine_ok empty_ready(1) c empty_ready(2) r, of float_text]
    by blast
  have mem: "''favicon.svg'' \<in> set asset_names" by (simp add: asset_names_def)
  have p: "path_join OUTPUT_DIR ''favicon.svg'' = ''nebula-x-assets/favicon.svg''"
    by (simp add: path_join_def OUTPUT_DIR_def)
  have "files v1 (path_join OUTPUT_DIR ''favicon.svg'') \<noteq> None \<and>
        files v1 (path_join OUTPUT_DIR ''favicon.svg'') = files v2 (path_join OUTPUT_DIR ''favicon.svg'')"
    using every mem unfolding list_all_iff by blast
  then have "files v1 ''nebula-x-assets/favicon.svg'' = files v2 ''nebula-x-assets/favicon.svg'' \<and>
      files v1 ''nebula-x-assets/favicon.svg'' \<noteq> None"
    unfolding p by blast
  then show ?thesis
    using fine_ok empty_ready(1,2) c r run1 run2 by blast
qed

lemma wordmark_width_value: "wordmark_width fmt = 400"
  by (simp add: wordmark_width_def get_wordmark_paths_def Let_def)

text \<open>
  Claim C3.  The width that \<open>get_wordmark_paths\<close> returns at scale 0.5 from start 0 is the sum of
  the advances 120, 100, 100, 100, 100, 120, 40 (the space) and 120, each times 0.5; it is
  positive, and \<^verbatim>\<open>int\<close> loses nothing of it.  A run that succeeds writes
  \<^verbatim>\<open>nebula-x-wordmark.svg\<close> with exactly that width, 400, and height 60.
\<close>

theorem wordmark_width_is_total_advance:
  assumes "env_ok en" and "no_dir_clash w" and "dir_ready w"
  shows "wordmark_width fmt = snd (get_wordmark_paths fmt 0.5 0 0) \<and>
         wordmark_width fmt =
           120 * 0.5 + 100 * 0.5 + 100 * 0.5 + 100 * 0.5 + 100 * 0.5 + 120 * 0.5 + 40 * 0.5 + 120 * 0.5 \<and>
         0 < wordmark_width fmt \<and>
         real_of_int (py_int (wordmark_width fmt)) = wordmark_width fmt \<and>
         (\<exists>w'. generate_assets en fmt w = Inr w' \<and>
            files w' (path_join OUTPUT_DIR ''nebula-x-wordmark.svg'') =
               Some (svg_text (py_int (wordmark_width fmt)) 60 (wordmark_content fmt)) \<and>
            attr ''width'' (svg_text (py_int (wordmark_width fmt)) 60 (wordmark_content fmt)) =
               Some ''400'' \<and>
            attr ''height'' (svg_text (py_int (wordmark_width fmt)) 60 (wordmark_content fmt)) =
               Some ''60'')"
proof -
  let ?w = "written (asset_calls fmt) (ensured w)"
  have a: "wordmark_width fmt = snd (get_wordmark_paths fmt 0.5 0 0)"
    by (simp add: wordmark_width_def split: prod.splits)
  have b: "wordmark_width fmt =
           120 * 0.5 + 100 * 0.5 + 100 * 0.5 + 100 * 0.5 + 100 * 0.5 + 120 * 0.5 + 40 * 0.5 + 120 * 0.5"
    by (simp add: wordmark_width_value)
  have c: "0 < wordmark_width fmt" by (simp add: wordmark_width_value)
  have i: "py_int (wordmark_width fmt) = 400" by (simp add: wordmark_width_value py_int_def)
  have d: "real_of_int (py_int (wordmark_width fmt)) = wordmark_width fmt"
    unfolding i by (simp add: wordmark_width_value)
  have run: "generate_assets en fmt w = Inr ?w" by (rule generate_assets_ok [OF assms])
  have "(''nebula-x-wordmark.svg'', py_int (wordmark_width fmt), 60, wordmark_content fmt)
          \<in> set (asset_calls fmt)"
    by (simp add: asset_calls_def)
  from generate_assets_file [OF assms this]
  have f: "files ?w (path_join OUTPUT_DIR ''nebula-x-wordmark.svg'') =
      Some (svg_text (py_int (wordmark_width fmt)) 60 (wordmark_content fmt))"
    by (simp add: run asset_path_def)
  have s: "str_int 400 = ''400''" "str_int 60 = ''60''"
    by (simp_all add: str_int_def nat_str_small nat_str_big digit_char_def)
  have g: "attr ''width'' (svg_text (py_int (wordmark_width fmt)) 60 (wordmark_content fmt)) =
               Some ''400''"
    by (simp add: attr_width i s)
  have h: "attr ''height'' (svg_text (py_int (wordmark_width fmt)) 60 (wordmark_content fmt)) =
               Some ''60''"
    by (simp add: attr_height s)
  show ?thesis using a b c d run f g h by blast
qed

theorem wordmark_width_is_total_advance_witness:
  "env_ok env_fine \<and> no_dir_clash world_empty \<and> dir_ready world_empty \<and>
   wordmark_width float_text = 400 \<and>
   (\<exists>w'. generate_assets env_fine float_text world_empty = Inr w' \<and>
      files w' ''nebula-x-assets/nebula-x-wordmark.svg'' =
        Some (svg_text 400 60 (wordmark_content float_text)))"
proof -
  have p: "path_join OUTPUT_DIR ''nebula-x-wordmark.svg'' = ''nebula-x-assets/nebula-x-wordmark.svg''"
    by (simp add: path_join_def OUTPUT_DIR_def)
  have v: "wordmark_width float_text =
           120 * 0.5 + 100 * 0.5 + 100 * 0.5 + 100 * 0.5 + 100 * 0.5 + 120 * 0.5 + 40 * 0.5 + 120 * 0.5"
    and i: "real_of_int (py_int (wordmark_width float_text)) = wordmark_width float_text"
    and ex: "\<exists>w'. generate_assets env_fine float_text world_empty = Inr w' \<and>
            files w' (path_join OUTPUT_DIR ''nebula-x-wordmark.svg'') =
               Some (svg_text (py_int (wordmark_width float_text)) 60 (wordmark_content float_text))"
    using wordmark_width_is_total_advance [OF fine_ok empty_ready(1,2), of float_text] by blast+
  have v4: "wordmark_width float_text = 400" using v by simp
  then have "py_int (wordmark_width float_text) = 400" using i by linarith
  then show ?thesis using fine_ok empty_ready(1,2) v4 ex unfolding p by simp
qed

lemma final_and_then:
  "final (and_then r f) = (case r of Inl (e, w) \<Rightarrow> w | Inr w \<Rightarrow> final (f w))"
  by (cases r) auto

lemma create_svg_new_events:
  "\<exists>evs. trace (final (create_svg en n wd h c w)) = trace w @ evs \<and> list_all framed_event evs"
  by (simp add: create_svg_def Let_def framed_svg_text split: write_result.splits)

lemma run_calls_new_events:
  "\<exists>evs. trace (final (run_calls en cs w)) = trace w @ evs \<and> list_all framed_event evs"
proof (induction cs arbitrary: w)
  case Nil
  then show ?case by simp
next
  case (Cons a cs)
  obtain n wd h c where a: "a = (n, wd, h, c)" by (cases a) auto
  obtain evs where evs: "trace (final (create_svg en n wd h c w)) = trace w @ evs"
    "list_all framed_event evs"
    using create_svg_new_events by blast
  show ?case
  proof (cases "create_svg en n wd h c w")
    case (Inl x)
    then show ?thesis using evs by (cases x) (auto simp: a)
  next
    case (Inr v)
    obtain evs' where "trace (final (run_calls en cs v)) = trace v @ evs'" "list_all framed_event evs'"
      using Cons.IH by blast
    then have "trace (final (run_calls en (a # cs) w)) = trace w @ (evs @ evs')"
      and "list_all framed_event (evs @ evs')"
      using evs Inr by (simp_all add: a)
    then show ?thesis by blast
  qed
qed

lemma generate_assets_new_events:
  "\<exists>evs. trace (final (generate_assets en fmt w)) = trace w @ evs \<and> list_all framed_event evs"
proof (cases "path_exists w OUTPUT_DIR")
  case True
  then show ?thesis using run_calls_new_events [of en "asset_calls fmt" w]
    by (simp add: generate_assets_run)
next
  case False
  show ?thesis
  proof (cases "makedirs_result en OUTPUT_DIR")
    case None
    let ?v = "w\<lparr>dirs := insert OUTPUT_DIR (dirs w), trace := trace w @ [MakeDirs OUTPUT_DIR]\<rparr>"
    obtain evs where "trace (final (run_calls en (asset_calls fmt) ?v)) = trace ?v @ evs"
      "list_all framed_event evs"
      using run_calls_new_events by blast
    then have "trace (final (generate_assets en fmt w)) = trace w @ (MakeDirs OUTPUT_DIR # evs)"
      and "list_all framed_event (MakeDirs OUTPUT_DIR # evs)"
      using False None by (simp_all add: generate_assets_run makedirs_def)
    then show ?thesis by blast
  next
    case (Some e)
    then show ?thesis using False by (simp add: generate_assets_run makedirs_def)
  qed
qed

lemma create_svg_written:
  assumes "create_svg en n wd h c w = Inr w'"
  shows "files w' (path_join OUTPUT_DIR n) = Some (svg_text wd h c)"
  using assms
  by (auto simp: create_svg_def Let_def split: if_splits write_result.splits)

text \<open>
  Claim C10.  Whenever \<open>create_svg\<close> succeeds with width \<open>w\<close> and height \<open>h\<close>, the document it
  leaves under the file's name declares \<open>width="w"\<close>, \<open>height="h"\<close> and
  \<open>viewBox="0 0 w h"\<close>.  And in every run of \<open>generate_assets\<close>, however it ends, each
  completed write among its effects wrote a document whose view box is \<open>0 0\<close> followed by its
  declared width and height.
\<close>

theorem every_document_framed:
  assumes "create_svg en filename width height content w = Inr w'"
  shows "(\<exists>doc. files w' (path_join OUTPUT_DIR filename) = Some doc \<and>
            attr ''width'' doc = Some (str_int width) \<and>
            attr ''height'' doc = Some (str_int height) \<and>
            attr ''viewBox'' doc = Some (''0 0 '' @ str_int width @ '' '' @ str_int height))
         \<and> (\<exists>evs. trace (final (generate_assets en' fmt w0)) = trace w0 @ evs \<and>
                  list_all framed_event evs)"
  using create_svg_written [OF assms] generate_assets_new_events [of en' fmt w0]
  by (simp add: attr_width attr_height attr_viewBox)

theorem every_document_framed_witness:
  "create_svg env_fine ''favicon.svg'' 100 60 ''<g/>'' (world_empty\<lparr>dirs := {''nebula-x-assets''}\<rparr>) =
     Inr (world_empty\<lparr>dirs := {''nebula-x-assets''},
           files := [''nebula-x-assets/favicon.svg'' \<mapsto> svg_text 100 60 ''<g/>''],
           trace := [WriteFile ''nebula-x-assets/favicon.svg'' (svg_text 100 60 ''<g/>''),
                     Print ''Created favicon.svg'']\<rparr>) \<and>
   attr ''width'' (svg_text 100 60 ''<g/>'') = Some ''100'' \<and>
   attr ''height'' (svg_text 100 60 ''<g/>'') = Some ''60'' \<and>
   attr ''viewBox'' (svg_text 100 60 ''<g/>'') = Some ''0 0 100 60''"
proof -
  let ?w = "world_empty\<lparr>dirs := {''nebula-x-assets''}\<rparr>"
  let ?w' = "world_empty\<lparr>dirs := {''nebula-x-assets''},
           files := [''nebula-x-assets/favicon.svg'' \<mapsto> svg_text 100 60 ''<g/>''],
           trace := [WriteFile ''nebula-x-assets/favicon.svg'' (svg_text 100 60 ''<g/>''),
                     Print ''Created favicon.svg'']\<rparr>"
  have run: "create_svg env_fine ''favicon.svg'' 100 60 ''<g/>'' ?w = Inr ?w'"
    by (simp add: create_svg_def Let_def dirname_def path_join_def OUTPUT_DIR_def dir_exists_def
        env_fine_def world_empty_def)
  have s: "str_int 100 = ''100''" "str_int 60 = ''60''"
    by (simp_all add: str_int_def nat_str_small nat_str_big digit_char_def)
  show ?thesis
    using every_document_framed [OF run, of env_fine float_text world_empty] run
    by (simp add: s path_join_def OUTPUT_DIR_def world_empty_def)
qed

lemma written_paths_append: "written_paths (xs @ ys) = written_paths xs @ written_paths ys"
  by (induction xs rule: written_paths.induct) simp_all

lemma files_written_other:
  "p \<notin> set (map call_path cs) \<Longrightarrow> files (written cs w) p = files w p"
  using docs_dom [of cs p] by (auto simp: written_files map_add_def split: option.splits)

lemma files_written_call:
  assumes "distinct (map call_path cs)" and "c \<in> set cs"
  shows "files (written cs w) (call_path c) = Some (call_doc c)"
  using docs_lookup [OF assms] by (simp add: written_files map_add_def)

lemma distinct_parts:
  assumes "distinct (xs @ y # zs)"
  shows "y \<notin> set xs" and "y \<notin> set zs" and "set xs \<inter> set zs = {}"
  using assms by auto

section \<open>Properties of the path expression on Python's numbers\<close>

lemma fits_small: "\<bar>n\<bar> \<le> 1000 \<Longrightarrow> fits_double n"
proof -
  have "(1000::int) < 2 ^ 1024 - 2 ^ 970" by simp
  then show "\<bar>n\<bar> \<le> 1000 \<Longrightarrow> fits_double n" unfolding fits_double_def by linarith
qed



lemma str_int_no_comma: "CHR '','' \<notin> set (str_int i)"
  using nat_str_plain by (auto simp: str_int_def)

lemma py_str_plain:
  assumes "plain_repr rt" and "py_str rt v = Inr t"
  shows "CHR '' '' \<notin> set t \<and> CHR '','' \<notin> set t"
proof (cases v)
  case (PyInt n)
  then show ?thesis
    using assms(2) str_int_plain(2) [of n] str_int_no_comma [of n] by (auto split: if_splits)
next
  case (PyFloat x)
  then show ?thesis using assms by (auto simp: plain_repr_def)
qed

lemma axis_py_plain:
  assumes "plain_repr rt" and "axis_py rt v scale off = Inr t"
  shows "CHR '' '' \<notin> set t \<and> CHR '','' \<notin> set t"
proof -
  obtain a where "py_mul rt v scale = Inr a" and r: "then_num (py_add rt a off) (py_str rt) = Inr t"
    using assms(2) by (cases "py_mul rt v scale") (auto simp: axis_py_def)
  obtain b where "py_str rt b = Inr t"
    using r by (cases "py_add rt a off") auto
  then show ?thesis by (rule py_str_plain [OF assms(1)])
qed

lemma returns_text: "returns r \<Longrightarrow> r = Inr (projr r)"
  by (cases r) simp_all

lemma axis_py_float:
  assumes "in_range v" and "in_range off"
  shows "axis_py rt v (PyFloat s) off = Inr (float_axis rt v s off)"
  using assms by (cases v; cases off) (simp_all add: axis_py_def float_axis_def to_float_def)

lemma parse_coord_pair:
  assumes "CHR '','' \<notin> set a" and "CHR '','' \<notin> set b"
  shows "parse_coord (a @ CHR '','' # b) = Some (a, b)"
proof -
  have "split_on CHR '','' (a @ CHR '','' # b) = a # split_on CHR '','' b"
    using assms(1) by (rule split_on_first)
  then show ?thesis using split_on_none [OF assms(2)] by (simp add: parse_coord_def)
qed

lemma parse_line_texts:
  assumes "\<forall>q \<in> set ps. CHR '','' \<notin> set (tx q) \<and> CHR '','' \<notin> set (ty q)"
  shows "parse_instrs (concat (map (\<lambda>c. [''L'', c]) (map (\<lambda>q. tx q @ '','' @ ty q) ps)) @ [''Z'']) =
           Some (map (\<lambda>q. LineTo (tx q) (ty q)) ps @ [ClosePath])"
  using assms
proof (induction ps)
  case Nil
  then show ?case by simp
next
  case (Cons q ps)
  then have "parse_coord (tx q @ '','' @ ty q) = Some (tx q, ty q)"
    by (simp add: parse_coord_pair)
  then show ?case using Cons by simp
qed

lemma read_path_texts:
  assumes "\<forall>q \<in> set (p # ps). CHR '','' \<notin> set (tx q) \<and> CHR '','' \<notin> set (ty q) \<and>
              CHR '' '' \<notin> set (tx q) \<and> CHR '' '' \<notin> set (ty q)"
  shows "read_path (''M '' @ join '' L '' (map (\<lambda>q. tx q @ '','' @ ty q) (p # ps)) @ '' Z'') =
           Some (MoveTo (tx p) (ty p) # map (\<lambda>q. LineTo (tx q) (ty q)) ps @ [ClosePath])"
proof -
  let ?c = "\<lambda>q. tx q @ '','' @ ty q"
  have nb: "\<forall>c \<in> set (?c p # map ?c ps). CHR '' '' \<notin> set c"
    using assms by auto
  have "split_on CHR '' '' (''M '' @ join '' L '' (?c p # map ?c ps) @ '' Z'') =
          ''M'' # split_on CHR '' '' (join '' L '' (?c p # map ?c ps) @ '' Z'')"
    using split_on_first [of "CHR '' ''" "''M''" "join '' L '' (?c p # map ?c ps) @ '' Z''"]
    by simp
  then have "split_on CHR '' '' (''M '' @ join '' L '' (map ?c (p # ps)) @ '' Z'') =
          ''M'' # ?c p # concat (map (\<lambda>c. [''L'', c]) (map ?c ps)) @ [''Z'']"
    using split_on_joined [OF nb] by simp
  moreover have "parse_coord (?c p) = Some (tx p, ty p)"
    using assms by (simp add: parse_coord_pair)
  moreover have "parse_instrs (concat (map (\<lambda>c. [''L'', c]) (map ?c ps)) @ [''Z'']) =
           Some (map (\<lambda>q. LineTo (tx q) (ty q)) ps @ [ClosePath])"
    using assms by (intro parse_line_texts) simp
  ultimately show ?thesis by (simp add: read_path_def)
qed

lemma coords_py_returns:
  assumes "list_all (\<lambda>q. returns (axis_py rt (fst q) scale ox) \<and> returns (axis_py rt (snd q) scale oy)) ps"
  shows "coords_py rt scale ox oy ps =
           Inr (map (\<lambda>q. projr (axis_py rt (fst q) scale ox) @ '','' @ projr (axis_py rt (snd q) scale oy)) ps)"
  using assms
proof (induction ps)
  case Nil
  then show ?case by simp
next
  case (Cons q ps)
  then have x: "axis_py rt (fst q) scale ox = Inr (projr (axis_py rt (fst q) scale ox))"
    and y: "axis_py rt (snd q) scale oy = Inr (projr (axis_py rt (snd q) scale oy))"
    by (simp_all add: returns_text)
  have "coord_py rt scale ox oy q =
      Inr (projr (axis_py rt (fst q) scale ox) @ '','' @ projr (axis_py rt (snd q) scale oy))"
    unfolding coord_py_def by (subst x, subst y) simp
  then show ?case using Cons by simp
qed

lemma get_n_mark_path_py_path_d:
  "get_n_mark_path_py rt scale ox oy = path_d_py rt n_mark_points_py scale ox oy"
  by (simp add: get_n_mark_path_py_def path_d_py_def)

lemma path_d_py_read:
  assumes "plain_repr rt"
    and "list_all (\<lambda>q. returns (axis_py rt (fst q) scale ox) \<and> returns (axis_py rt (snd q) scale oy))
           (p # ps)"
  shows "\<exists>d. path_d_py rt (p # ps) scale ox oy = Inr d \<and>
           read_path d =
             Some (MoveTo (projr (axis_py rt (fst p) scale ox)) (projr (axis_py rt (snd p) scale oy)) #
                   map (\<lambda>q. LineTo (projr (axis_py rt (fst q) scale ox))
                                 (projr (axis_py rt (snd q) scale oy))) ps @
                   [ClosePath])"
proof -
  let ?tx = "\<lambda>q. projr (axis_py rt (fst q) scale ox)"
  let ?ty = "\<lambda>q. projr (axis_py rt (snd q) scale oy)"
  have run: "path_d_py rt (p # ps) scale ox oy =
      Inr (''M '' @ join '' L '' (map (\<lambda>q. ?tx q @ '','' @ ?ty q) (p # ps)) @ '' Z'')"
    unfolding path_d_py_def coords_py_returns [OF assms(2)] by simp
  have "\<forall>q \<in> set (p # ps). CHR '','' \<notin> set (?tx q) \<and> CHR '','' \<notin> set (?ty q) \<and>
              CHR '' '' \<notin> set (?tx q) \<and> CHR '' '' \<notin> set (?ty q)"
  proof
    fix q assume "q \<in> set (p # ps)"
    then have "returns (axis_py rt (fst q) scale ox)" and "returns (axis_py rt (snd q) scale oy)"
      using assms(2) unfolding list_all_iff by blast+
    then have "axis_py rt (fst q) scale ox = Inr (?tx q)" and "axis_py rt (snd q) scale oy = Inr (?ty q)"
      by (simp_all add: returns_text)
    then show "CHR '','' \<notin> set (?tx q) \<and> CHR '','' \<notin> set (?ty q) \<and>
              CHR '' '' \<notin> set (?tx q) \<and> CHR '' '' \<notin> set (?ty q)"
      using axis_py_plain [OF assms(1)] by blast
  qed
  then have "read_path (''M '' @ join '' L '' (map (\<lambda>q. ?tx q @ '','' @ ?ty q) (p # ps)) @ '' Z'') =
           Some (MoveTo (?tx p) (?ty p) # map (\<lambda>q. LineTo (?tx q) (?ty q)) ps @ [ClosePath])"
    by (rule read_path_texts)
  then show ?thesis using run by simp
qed

lemma filter_lines:
  "filter (\<lambda>i. i \<noteq> ClosePath) (map (\<lambda>q. LineTo (f q) (g q)) qs) = map (\<lambda>q. LineTo (f q) (g q)) qs"
  "filter (\<lambda>i. i = ClosePath) (map (\<lambda>q. LineTo (f q) (g q)) qs) = []"
  by (induction qs) simp_all

text \<open>
  Claim C1, amended.  Take a point sequence \<open>p\<close> of at least two points, a scale and offsets
  such that the coordinate expression of line 28 returns at every point of \<open>p\<close> (it raises
  \<open>OverflowError\<close> when an int beyond the range of doubles meets a float, and \<open>ValueError\<close>
  when an int has more digits than the runtime's limit).  Then the path expression returns a
  text that reads as: a move-to at the two coordinate texts of \<open>p[0]\<close>, then a line-to for each
  further point of \<open>p\<close>, in the order of \<open>p\<close> and with nothing left out or merged, then one
  close.  So it has \<open>length p\<close> move or line instructions and one close instruction.  Each
  coordinate text is the text Python gives the value of \<open>v * scale + offset\<close> in its own
  arithmetic: for a float scale and operands within the range of doubles the expression
  returns, and the text is the \<open>repr\<close> of the double sum of the double product and the offset
  (two roundings, not the exact real number); for ints throughout it is the decimal text of the
  exact integer, when that is within the digit limit.  The mark's path is this expression on
  the N outline.
\<close>

theorem path_d_py_instructions:
  assumes "2 \<le> length p" and "plain_repr rt"
    and "list_all (\<lambda>q. returns (axis_py rt (fst q) scale offsetX) \<and>
                        returns (axis_py rt (snd q) scale offsetY)) p"
  shows "(\<exists>d is. path_d_py rt p scale offsetX offsetY = Inr d \<and> read_path d = Some is \<and>
            is = MoveTo (projr (axis_py rt (fst (p ! 0)) scale offsetX))
                        (projr (axis_py rt (snd (p ! 0)) scale offsetY)) #
                 map (\<lambda>q. LineTo (projr (axis_py rt (fst q) scale offsetX))
                               (projr (axis_py rt (snd q) scale offsetY))) (tl p) @
                 [ClosePath] \<and>
            length (filter (\<lambda>i. i \<noteq> ClosePath) is) = length p \<and>
            length (filter (\<lambda>i. i = ClosePath) is) = 1)
         \<and> (in_range v \<and> in_range off \<longrightarrow>
              returns (axis_py rt v (PyFloat s) off) \<and>
              projr (axis_py rt v (PyFloat s) off) =
                float_repr rt (fadd rt (fmul rt (as_float rt v) s) (as_float rt off)))
         \<and> (max_str_digits rt = 0 \<or> length (nat_str (nat \<bar>vi * si + oi\<bar>)) \<le> max_str_digits rt \<longrightarrow>
              axis_py rt (PyInt vi) (PyInt si) (PyInt oi) = Inr (str_int (vi * si + oi)))
         \<and> get_n_mark_path_py rt scale offsetX offsetY =
             path_d_py rt n_mark_points_py scale offsetX offsetY"
proof -
  obtain q qs where p: "p = q # qs" using assms(1) by (cases p) auto
  obtain d where d: "path_d_py rt (q # qs) scale offsetX offsetY = Inr d"
    "read_path d =
       Some (MoveTo (projr (axis_py rt (fst q) scale offsetX)) (projr (axis_py rt (snd q) scale offsetY)) #
             map (\<lambda>q. LineTo (projr (axis_py rt (fst q) scale offsetX))
                           (projr (axis_py rt (snd q) scale offsetY))) qs @
             [ClosePath])"
    using path_d_py_read [OF assms(2) assms(3) [unfolded p]] by blast
  have first: "\<exists>d is. path_d_py rt p scale offsetX offsetY = Inr d \<and> read_path d = Some is \<and>
            is = MoveTo (projr (axis_py rt (fst (p ! 0)) scale offsetX))
                        (projr (axis_py rt (snd (p ! 0)) scale offsetY)) #
                 map (\<lambda>q. LineTo (projr (axis_py rt (fst q) scale offsetX))
                               (projr (axis_py rt (snd q) scale offsetY))) (tl p) @
                 [ClosePath] \<and>
            length (filter (\<lambda>i. i \<noteq> ClosePath) is) = length p \<and>
            length (filter (\<lambda>i. i = ClosePath) is) = 1"
    unfolding p using d by (simp add: filter_lines)
  have second: "in_range v \<and> in_range off \<longrightarrow>
              returns (axis_py rt v (PyFloat s) off) \<and>
              projr (axis_py rt v (PyFloat s) off) =
                float_repr rt (fadd rt (fmul rt (as_float rt v) s) (as_float rt off))"
    by (simp add: axis_py_float float_axis_def)
  have third: "max_str_digits rt = 0 \<or> length (nat_str (nat \<bar>vi * si + oi\<bar>)) \<le> max_str_digits rt \<longrightarrow>
              axis_py rt (PyInt vi) (PyInt si) (PyInt oi) = Inr (str_int (vi * si + oi))"
    by (auto simp: axis_py_def)
  show ?thesis using first second third get_n_mark_path_py_path_d by blast
qed

lemma plain_repr_exact: "plain_repr (exact_rt float_text)"
  using plain_text_float_text by (simp add: plain_repr_def plain_text_def exact_rt_def)

text \<open>
  The theorem at the first three points of the N outline, scale 0.8 and offset (10, 10), on the
  runtime with exact arithmetic, where 0.8 is the exact number and the text is that of
  \<open>float_text\<close>; and its two clauses on single coordinates at \<open>30 * 0.8 + 10\<close> and
  \<open>30 * 2 + 0\<close>.
\<close>

theorem path_d_py_instructions_witness:
  "2 \<le> length [(PyInt 0, PyInt 100), (PyInt 0, PyInt 0), (PyInt 30, PyInt 0 :: real num)] \<and>
   plain_repr (exact_rt float_text) \<and>
   list_all (\<lambda>q. returns (axis_py (exact_rt float_text) (fst q) (PyFloat 0.8) (PyInt 10)) \<and>
                   returns (axis_py (exact_rt float_text) (snd q) (PyFloat 0.8) (PyInt 10)))
     [(PyInt 0, PyInt 100), (PyInt 0, PyInt 0), (PyInt 30, PyInt 0)] \<and>
   (\<exists>d. path_d_py (exact_rt float_text) [(PyInt 0, PyInt 100), (PyInt 0, PyInt 0), (PyInt 30, PyInt 0)]
          (PyFloat 0.8) (PyInt 10) (PyInt 10) = Inr d \<and>
        read_path d =
          Some [MoveTo ''10.0'' ''90.0'', LineTo ''10.0'' ''10.0'', LineTo ''34.0'' ''10.0'', ClosePath]) \<and>
   in_range (PyInt 30 :: real num) \<and> in_range (PyInt 10 :: real num) \<and>
   projr (axis_py (exact_rt float_text) (PyInt 30) (PyFloat 0.8) (PyInt 10)) = float_text (30 * 0.8 + 10) \<and>
   length (nat_str (nat \<bar>30 * 2 + 0\<bar>)) \<le> max_str_digits (exact_rt float_text) \<and>
   axis_py (exact_rt float_text) (PyInt 30) (PyInt 2) (PyInt 0) = Inr ''60''"
proof -
  let ?rt = "exact_rt float_text"
  let ?p = "[(PyInt 0, PyInt 100), (PyInt 0, PyInt 0), (PyInt 30, PyInt 0 :: real num)]"
  have ax: "axis_py ?rt (PyInt 0) (PyFloat 0.8) (PyInt 10) = Inr ''10.0''"
    "axis_py ?rt (PyInt 100) (PyFloat 0.8) (PyInt 10) = Inr ''90.0''"
    "axis_py ?rt (PyInt 30) (PyFloat 0.8) (PyInt 10) = Inr ''34.0''"
    by (simp_all add: axis_py_def to_float_def fits_small exact_rt_def float_text_def nat_str_small
        nat_str_big digit_char_def)
  have len: "2 \<le> length ?p" by simp
  have rets: "list_all (\<lambda>q. returns (axis_py ?rt (fst q) (PyFloat 0.8) (PyInt 10)) \<and>
                   returns (axis_py ?rt (snd q) (PyFloat 0.8) (PyInt 10))) ?p"
    unfolding list.pred_inject fst_conv snd_conv ax by simp
  note ex = path_d_py_instructions [OF len plain_repr_exact rets, THEN conjunct1,
      unfolded nth_Cons_0 fst_conv snd_conv list.sel list.map ax sum.sel]
  have main: "\<exists>d. path_d_py ?rt ?p (PyFloat 0.8) (PyInt 10) (PyInt 10) = Inr d \<and>
        read_path d =
          Some [MoveTo ''10.0'' ''90.0'', LineTo ''10.0'' ''10.0'', LineTo ''34.0'' ''10.0'', ClosePath]"
    using ex by auto
  have r30: "in_range (PyInt 30 :: real num)" and r10: "in_range (PyInt 10 :: real num)"
    by (simp_all add: fits_small)
  have fl: "projr (axis_py ?rt (PyInt 30) (PyFloat 0.8) (PyInt 10)) = float_text (30 * 0.8 + 10)"
    using path_d_py_instructions [OF len plain_repr_exact rets, THEN conjunct2, THEN conjunct1,
        of "PyInt 30" "PyInt 10" "0.8"] r30 r10
    by (simp add: exact_rt_def)
  have dg: "length (nat_str (nat \<bar>30 * 2 + 0\<bar>)) \<le> max_str_digits ?rt"
    by (simp add: exact_rt_def nat_str_small nat_str_big)
  have it: "axis_py ?rt (PyInt 30) (PyInt 2) (PyInt 0) = Inr ''60''"
    using path_d_py_instructions [OF len plain_repr_exact rets, THEN conjunct2, THEN conjunct2,
        THEN conjunct1, of 30 2 0] dg
    by (simp add: str_int_def nat_str_small nat_str_big digit_char_def)
  show ?thesis by (intro conjI len plain_repr_exact rets main r30 r10 fl dg it)
qed

text \<open>
  Claim C1, as stated, fails: it speaks of every positive scale, and for the positive scale
  \<open>10 ** 400\<close> (an int) with the offsets 0.5 the coordinate expression raises
  \<open>OverflowError\<close> at the first point's second coordinate, where \<open>100 * 10 ** 400 + 0.5\<close> has to
  convert an int beyond the range of doubles; \<open>get_n_mark_path\<close> returns no path.
\<close>

theorem huge_scale_raises_counterexample:
  "(0::int) < 10 ^ 400 \<and>
   get_n_mark_path_py (exact_rt float_text) (PyInt (10 ^ 400)) (PyFloat 0.5) (PyFloat 0.5) =
     Inl OverflowError"
  by (simp add: get_n_mark_path_py_def n_mark_points_py_def coord_py_def axis_py_def to_float_def
      fits_double_def exact_rt_def)







text \<open>
  The expression on real numbers, \<open>path_d\<close>, is the expression on Python's numbers for int
  points, a float scale and operands within the range of doubles, on a runtime whose arithmetic
  is exact.  Every call the program itself makes has this form of operands.
\<close>

lemma coords_py_exact:
  assumes "in_range ox" and "in_range oy"
    and "list_all (\<lambda>q. fits_double (fst q) \<and> fits_double (snd q)) pts"
  shows "coords_py (exact_rt fmt) (PyFloat s) ox oy (map (\<lambda>q. (PyInt (fst q), PyInt (snd q))) pts) =
           Inr (map (coord fmt s (as_float (exact_rt fmt) ox) (as_float (exact_rt fmt) oy))
                  (map (\<lambda>q. (of_int (fst q), of_int (snd q))) pts))"
  using assms
  by (induction pts) (simp_all add: coord_py_def axis_py_float float_axis_def exact_rt_def coord_def)

lemma path_d_py_exact:
  assumes "in_range ox" and "in_range oy"
    and "list_all (\<lambda>q. fits_double (fst q) \<and> fits_double (snd q)) pts"
  shows "path_d_py (exact_rt fmt) (map (\<lambda>q. (PyInt (fst q), PyInt (snd q))) pts) (PyFloat s) ox oy =
           Inr (path_d fmt (map (\<lambda>q. (of_int (fst q), of_int (snd q))) pts) s
                  (as_float (exact_rt fmt) ox) (as_float (exact_rt fmt) oy))"
  unfolding path_d_py_def coords_py_exact [OF assms] by (simp add: path_d_def)

lemma get_n_mark_path_py_exact:
  assumes "in_range ox" and "in_range oy"
  shows "get_n_mark_path_py (exact_rt fmt) (PyFloat s) ox oy =
           Inr (get_n_mark_path fmt s (as_float (exact_rt fmt) ox) (as_float (exact_rt fmt) oy))"
proof -
  have pts: "n_mark_points_py =
      map (\<lambda>q. (PyInt (fst q), PyInt (snd q)))
        [(0, 100), (0, 0), (30, 0), (70, 70), (70, 0), (100, 0), (100, 100), (70, 100), (30, 30), (30, 100)]"
    by (simp add: n_mark_points_py_def)
  have rng: "list_all (\<lambda>q. fits_double (fst q) \<and> fits_double (snd q))
        [(0, 100), (0, 0), (30, 0), (70, 70), (70, 0), (100, 0), (100, 100), (70, 100), (30, 30), (30, 100)]"
    by (simp add: fits_small)
  show ?thesis
    unfolding get_n_mark_path_py_path_d pts path_d_py_exact [OF assms rng]
    by (simp add: get_n_mark_path_path_d n_mark_points_def)
qed

text \<open>
  A write of \<open>create_svg\<close> can fail in every way the function has: the output directory is
  missing or is a regular file, the path of the asset is a directory, the file cannot be opened,
  or the write breaks off.  The lemmas below speak of any of them: what a call that returned has
  done, and what a call that raised has left behind.
\<close>

lemma and_then_assoc: "and_then (and_then a f) g = and_then a (\<lambda>w. and_then (f w) g)"
  by (cases a) simp_all

lemma run_calls_append:
  "run_calls en (xs @ ys) w = and_then (run_calls en xs w) (run_calls en ys)"
proof (induction xs arbitrary: w)
  case Nil
  show ?case by simp
next
  case (Cons x xs)
  obtain n wd h c where x: "x = (n, wd, h, c)" by (cases x) auto
  show ?case
    unfolding x append_Cons run_calls.simps and_then_assoc
    by (rule arg_cong [where f = "and_then (create_svg en n wd h c w)"]) (rule ext, rule Cons.IH)
qed

lemma create_svg_Inr:
  assumes "create_svg en n wd h c w = Inr w'"
  shows "w' = w\<lparr>files := (files w)(asset_path n \<mapsto> svg_text wd h c),
                  trace := trace w @ call_events (n, wd, h, c)\<rparr>"
  using assms
  by (auto simp: create_svg_def Let_def asset_path_def split: if_splits write_result.splits)

lemma run_calls_Inr: "run_calls en cs w = Inr w' \<Longrightarrow> w' = written cs w"
proof (induction cs arbitrary: w)
  case Nil
  then show ?case by simp
next
  case (Cons x cs)
  obtain n wd h c where x: "x = (n, wd, h, c)" by (cases x) auto
  show ?case
  proof (cases "create_svg en n wd h c w")
    case (Inl a)
    then show ?thesis using Cons.prems by (simp add: x)
  next
    case (Inr w1)
    then have "run_calls en cs w1 = Inr w'" using Cons.prems by (simp add: x)
    then have "w' = written cs w1" by (rule Cons.IH)
    then show ?thesis using create_svg_Inr [OF Inr] by (simp add: x)
  qed
qed

lemma create_svg_Inl:
  assumes "create_svg en n wd h c w = Inl (e, w')"
  shows "dirs w' = dirs w"
    and "q \<noteq> asset_path n \<Longrightarrow> files w' q = files w q"
    and "\<exists>evs. trace w' = trace w @ evs \<and> written_paths evs = []"
  using assms
  by (auto simp: create_svg_def Let_def asset_path_def split: if_splits write_result.splits)

lemma ensure_step_any:
  assumes "path_exists w OUTPUT_DIR \<or> makedirs_result en OUTPUT_DIR = None"
  shows "(if \<not> path_exists w OUTPUT_DIR then makedirs en OUTPUT_DIR w else Inr w) = Inr (ensured w)"
  using assms by (auto simp: makedirs_def ensured_def)

text \<open>
  Claim C8.  Let the directory step succeed, let the first \<open>k\<close> calls of \<open>create_svg\<close> return,
  and let the next call raise the error \<open>e\<close>, for whatever reason, leaving the world \<open>w'\<close>.  Then
  the run ends with exactly that error and that world: nothing catches or translates the error.
  Each of the first \<open>k\<close> files holds the document written to it; every asset after the failed
  one is as it was before the run; no directory is made or removed; and the completed writes of
  the run are those of the first \<open>k\<close> assets, in order, and no others.
\<close>

theorem failing_write_stops_run:
  assumes "path_exists w OUTPUT_DIR \<or> makedirs_result en OUTPUT_DIR = None"
    and "k < length (asset_calls fmt)"
    and "run_calls en (take k (asset_calls fmt)) (ensured w) = Inr w2"
    and "asset_calls fmt ! k = (n, wd, h, c)"
    and "create_svg en n wd h c w2 = Inl (e, w')"
  shows "generate_assets en fmt w = Inl (e, w') \<and>
         list_all (\<lambda>a. files w' (call_path a) = Some (call_doc a)) (take k (asset_calls fmt)) \<and>
         list_all (\<lambda>m. files w' (asset_path m) = files w (asset_path m)) (drop (Suc k) asset_names) \<and>
         dirs w' = dirs (ensured w) \<and>
         (\<exists>evs. trace w' = trace (ensured w) @ evs \<and>
                written_paths evs = map asset_path (take k asset_names))"
proof -
  let ?cs = "asset_calls fmt"
  let ?pre = "take k ?cs"
  have split: "?cs = ?pre @ (n, wd, h, c) # drop (Suc k) ?cs"
    using id_take_nth_drop [OF assms(2)] assms(4) by simp
  have names_pre: "map fst ?pre = take k asset_names"
    by (simp add: take_map [symmetric] asset_calls_names)
  have names_post: "map fst (drop (Suc k) ?cs) = drop (Suc k) asset_names"
    by (simp add: drop_map [symmetric] asset_calls_names)
  have dist: "distinct (map call_path ?pre @ call_path (n, wd, h, c) # map call_path (drop (Suc k) ?cs))"
    using asset_calls_distinct [of fmt] split by (metis list.simps(9) map_append)
  have w2: "w2 = written ?pre (ensured w)" using assms(3) by (rule run_calls_Inr)
  have "run_calls en (?pre @ (n, wd, h, c) # drop (Suc k) ?cs) (ensured w) = Inl (e, w')"
    unfolding run_calls_append assms(3) by (simp add: assms(5))
  then have "run_calls en ?cs (ensured w) = Inl (e, w')" using split by simp
  then have run: "generate_assets en fmt w = Inl (e, w')"
    by (simp add: generate_assets_run ensure_step_any [OF assms(1)])
  have kept: "list_all (\<lambda>a. files w' (call_path a) = Some (call_doc a)) ?pre"
    unfolding list_all_iff
  proof
    fix a assume a: "a \<in> set ?pre"
    have "call_path a \<in> set (map call_path ?pre)" using a by simp
    moreover have "asset_path n \<notin> set (map call_path ?pre)"
      using distinct_parts(1) [OF dist] by simp
    ultimately have "call_path a \<noteq> asset_path n" by metis
    then have "files w' (call_path a) = files w2 (call_path a)"
      by (rule create_svg_Inl(2) [OF assms(5)])
    moreover have "distinct (map call_path ?pre)" using dist by simp
    then have "files (written ?pre (ensured w)) (call_path a) = Some (call_doc a)"
      using a by (rule files_written_call)
    ultimately show "files w' (call_path a) = Some (call_doc a)" using w2 by simp
  qed
  have untouched: "list_all (\<lambda>m. files w' (asset_path m) = files w (asset_path m))
             (drop (Suc k) asset_names)"
    unfolding list_all_iff
  proof
    fix m assume "m \<in> set (drop (Suc k) asset_names)"
    then have "asset_path m \<in> set (map call_path (drop (Suc k) ?cs))"
      by (simp add: call_paths names_post)
    moreover have "asset_path n \<notin> set (map call_path (drop (Suc k) ?cs))"
      using distinct_parts(2) [OF dist] by simp
    moreover note distinct_parts(3) [OF dist]
    ultimately have ne: "asset_path m \<noteq> asset_path n" and "asset_path m \<notin> set (map call_path ?pre)"
      by (metis, metis disjoint_iff)
    then have "files w2 (asset_path m) = files w (asset_path m)"
      using w2 by (simp add: files_written_other)
    then show "files w' (asset_path m) = files w (asset_path m)"
      using create_svg_Inl(2) [OF assms(5) ne] by simp
  qed
  have d: "dirs w' = dirs (ensured w)" using create_svg_Inl(1) [OF assms(5)] w2 by simp
  obtain evs where evs: "trace w' = trace w2 @ evs" "written_paths evs = []"
    using create_svg_Inl(3) [OF assms(5)] by blast
  have tr: "trace w' = trace (ensured w) @ (concat (map call_events ?pre) @ evs)"
    using evs(1) w2 by (simp add: written_trace)
  have wp: "written_paths (concat (map call_events ?pre) @ evs) = map asset_path (take k asset_names)"
    using evs(2) by (simp add: written_paths_append written_paths_calls call_paths names_pre)
  show ?thesis using run kept untouched d tr wp by blast
qed

text \<open>
  The cases of the theorem are all there are: a sequence of calls either returns, or some call
  of it raises after the calls before it have returned, and the sequence ends with that error.
\<close>

lemma run_calls_cases:
  "run_calls en cs w = Inr (written cs w) \<or>
   (\<exists>k w2 e w'. k < length cs \<and> run_calls en (take k cs) w = Inr w2 \<and>
       (case cs ! k of (n, wd, h, c) \<Rightarrow> create_svg en n wd h c w2) = Inl (e, w') \<and>
       run_calls en cs w = Inl (e, w'))"
proof (induction cs rule: rev_induct)
  case Nil
  show ?case by simp
next
  case (snoc x xs)
  obtain n wd h c where x: "x = (n, wd, h, c)" by (cases x) auto
  from snoc show ?case
  proof
    assume ok: "run_calls en xs w = Inr (written xs w)"
    show ?thesis
    proof (cases "create_svg en n wd h c (written xs w)")
      case (Inl a)
      obtain e w' where a: "a = (e, w')" by (cases a) auto
      have "run_calls en (xs @ [x]) w = Inl (e, w')"
        by (simp add: run_calls_append ok x Inl a)
      moreover have "run_calls en (take (length xs) (xs @ [x])) w = Inr (written xs w)"
        using ok by simp
      moreover have "(case (xs @ [x]) ! length xs of (n, wd, h, c) \<Rightarrow> create_svg en n wd h c (written xs w))
          = Inl (e, w')"
        by (simp add: x Inl a)
      moreover have "length xs < length (xs @ [x])" by simp
      ultimately show ?thesis by blast
    next
      case (Inr w1)
      have "run_calls en (xs @ [x]) w = Inr w1" by (simp add: run_calls_append ok x Inr)
      then show ?thesis using run_calls_Inr by metis
    qed
  next
    assume "\<exists>k w2 e w'. k < length xs \<and> run_calls en (take k xs) w = Inr w2 \<and>
       (case xs ! k of (n, wd, h, c) \<Rightarrow> create_svg en n wd h c w2) = Inl (e, w') \<and>
       run_calls en xs w = Inl (e, w')"
    then obtain k w2 e w' where k: "k < length xs" "run_calls en (take k xs) w = Inr w2"
      "(case xs ! k of (n, wd, h, c) \<Rightarrow> create_svg en n wd h c w2) = Inl (e, w')"
      "run_calls en xs w = Inl (e, w')" by blast
    have "k < length (xs @ [x])" using k(1) by simp
    moreover have "run_calls en (take k (xs @ [x])) w = Inr w2" using k(1,2) by simp
    moreover have "(case (xs @ [x]) ! k of (n, wd, h, c) \<Rightarrow> create_svg en n wd h c w2) = Inl (e, w')"
      using k(1,3) by (simp add: nth_append)
    moreover have "run_calls en (xs @ [x]) w = Inl (e, w')" by (simp add: run_calls_append k(4))
    ultimately show ?thesis by blast
  qed
qed

text \<open>
  The theorem at three failures: the second asset's path is a directory
  (\<open>IsADirectoryError\<close>), the third asset cannot be opened (error 13 of the operating
  system), and a regular file has the name of the output directory, so that the first write
  fails (\<open>NotADirectoryError\<close>).
\<close>

theorem failing_write_stops_run_witness:
  "(path_exists world_splash_is_dir OUTPUT_DIR \<or> makedirs_result env_fine OUTPUT_DIR = None) \<and>
   1 < length (asset_calls float_text) \<and>
   run_calls env_fine (take 1 (asset_calls float_text)) (ensured world_splash_is_dir) =
     Inr (written (take 1 (asset_calls float_text)) world_splash_is_dir) \<and>
   asset_calls float_text ! 1 = (''nebula-x-splash.svg'', 400, 400, splash_content float_text) \<and>
   create_svg env_fine ''nebula-x-splash.svg'' 400 400 (splash_content float_text)
       (written (take 1 (asset_calls float_text)) world_splash_is_dir) =
     Inl (IsADirectoryError ''nebula-x-assets/nebula-x-splash.svg'',
          written (take 1 (asset_calls float_text)) world_splash_is_dir) \<and>
   generate_assets env_fine float_text world_splash_is_dir =
     Inl (IsADirectoryError ''nebula-x-assets/nebula-x-splash.svg'',
          written (take 1 (asset_calls float_text)) world_splash_is_dir) \<and>
   files (written (take 1 (asset_calls float_text)) world_splash_is_dir)
       ''nebula-x-assets/nebula-x-mark.svg'' = Some (svg_text 100 100 (mark_content float_text)) \<and>
   files (written (take 1 (asset_calls float_text)) world_splash_is_dir)
       ''nebula-x-assets/favicon.svg'' = None \<and>
   (path_exists world_empty OUTPUT_DIR \<or> makedirs_result env_wordmark_denied OUTPUT_DIR = None) \<and>
   2 < length (asset_calls float_text) \<and>
   run_calls env_wordmark_denied (take 2 (asset_calls float_text)) (ensured world_empty) =
     Inr (written (take 2 (asset_calls float_text)) (ensured world_empty)) \<and>
   asset_calls float_text ! 2 =
     (''nebula-x-wordmark.svg'', py_int (wordmark_width float_text), 60, wordmark_content float_text) \<and>
   create_svg env_wordmark_denied ''nebula-x-wordmark.svg'' (py_int (wordmark_width float_text)) 60
       (wordmark_content float_text) (written (take 2 (asset_calls float_text)) (ensured world_empty)) =
     Inl (OSError 13 ''nebula-x-assets/nebula-x-wordmark.svg'',
          written (take 2 (asset_calls float_text)) (ensured world_empty)) \<and>
   generate_assets env_wordmark_denied float_text world_empty =
     Inl (OSError 13 ''nebula-x-assets/nebula-x-wordmark.svg'',
          written (take 2 (asset_calls float_text)) (ensured world_empty)) \<and>
   files (written (take 2 (asset_calls float_text)) (ensured world_empty))
       ''nebula-x-assets/nebula-x-splash.svg'' = Some (svg_text 400 400 (splash_content float_text)) \<and>
   files (written (take 2 (asset_calls float_text)) (ensured world_empty))
       ''nebula-x-assets/nebula-x-logo-light.svg'' = None \<and>
   (path_exists world_dir_is_file OUTPUT_DIR \<or> makedirs_result env_fine OUTPUT_DIR = None) \<and>
   0 < length (asset_calls float_text) \<and>
   run_calls env_fine (take 0 (asset_calls float_text)) (ensured world_dir_is_file) =
     Inr world_dir_is_file \<and>
   asset_calls float_text ! 0 = (''nebula-x-mark.svg'', 100, 100, mark_content float_text) \<and>
   create_svg env_fine ''nebula-x-mark.svg'' 100 100 (mark_content float_text) world_dir_is_file =
     Inl (NotADirectoryError ''nebula-x-assets/nebula-x-mark.svg'', world_dir_is_file) \<and>
   generate_assets env_fine float_text world_dir_is_file =
     Inl (NotADirectoryError ''nebula-x-assets/nebula-x-mark.svg'', world_dir_is_file) \<and>
   files world_dir_is_file ''nebula-x-assets/favicon.svg'' = None"
proof -
  let ?cs = "asset_calls float_text"
  let ?w1 = "written (take 1 ?cs) world_splash_is_dir"
  let ?w2 = "written (take 2 ?cs) (ensured world_empty)"
  have ens1: "ensured world_splash_is_dir = world_splash_is_dir"
    by (simp add: ensured_def path_exists_def world_splash_is_dir_def OUTPUT_DIR_def)
  have ens3: "ensured world_dir_is_file = world_dir_is_file"
    by (simp add: ensured_def path_exists_def world_dir_is_file_def OUTPUT_DIR_def)
  have a1: "path_exists world_splash_is_dir OUTPUT_DIR \<or> makedirs_result env_fine OUTPUT_DIR = None"
    and a2: "path_exists world_empty OUTPUT_DIR \<or> makedirs_result env_wordmark_denied OUTPUT_DIR = None"
    and a3: "path_exists world_dir_is_file OUTPUT_DIR \<or> makedirs_result env_fine OUTPUT_DIR = None"
    by (simp_all add: env_fine_def env_wordmark_denied_def)
  have b1: "1 < length ?cs" and b2: "2 < length ?cs" and b3: "0 < length ?cs"
    by (simp_all add: asset_calls_def)
  have d1: "?cs ! 1 = (''nebula-x-splash.svg'', 400, 400, splash_content float_text)"
    and d2: "?cs ! 2 =
      (''nebula-x-wordmark.svg'', py_int (wordmark_width float_text), 60, wordmark_content float_text)"
    and d3: "?cs ! 0 = (''nebula-x-mark.svg'', 100, 100, mark_content float_text)"
    by (simp_all add: asset_calls_def)
  have c1: "run_calls env_fine (take 1 ?cs) (ensured world_splash_is_dir) = Inr ?w1"
    unfolding ens1
    by (rule run_calls_ok)
      (simp_all add: asset_calls_def call_ready_def world_splash_is_dir_def env_fine_def
        asset_path_def path_join_def OUTPUT_DIR_def)
  have c2: "run_calls env_wordmark_denied (take 2 ?cs) (ensured world_empty) = Inr ?w2"
    by (rule run_calls_ok)
      (simp_all add: asset_calls_def call_ready_def world_empty_def env_wordmark_denied_def
        ensured_def path_exists_def asset_path_def path_join_def OUTPUT_DIR_def)
  have c3: "run_calls env_fine (take 0 ?cs) (ensured world_dir_is_file) = Inr world_dir_is_file"
    by (simp add: ens3)
  have dn: "dirname (path_join OUTPUT_DIR n) = OUTPUT_DIR" if "CHR ''/'' \<notin> set n" for n
    using dirname_asset_path [OF that] by (simp add: asset_path_def)
  have e1: "create_svg env_fine ''nebula-x-splash.svg'' 400 400 (splash_content float_text) ?w1 =
      Inl (IsADirectoryError ''nebula-x-assets/nebula-x-splash.svg'', ?w1)"
    by (simp add: create_svg_def Let_def dn dir_exists_def)
      (simp add: world_splash_is_dir_def path_join_def OUTPUT_DIR_def)
  have e2: "create_svg env_wordmark_denied ''nebula-x-wordmark.svg'' (py_int (wordmark_width float_text))
        60 (wordmark_content float_text) ?w2 =
      Inl (OSError 13 ''nebula-x-assets/nebula-x-wordmark.svg'', ?w2)"
    by (simp add: create_svg_def Let_def dn dir_exists_def)
      (simp add: world_empty_def ensured_def path_exists_def env_wordmark_denied_def path_join_def
        OUTPUT_DIR_def)
  have e3: "create_svg env_fine ''nebula-x-mark.svg'' 100 100 (mark_content float_text)
        world_dir_is_file =
      Inl (NotADirectoryError ''nebula-x-assets/nebula-x-mark.svg'', world_dir_is_file)"
    by (simp add: create_svg_def Let_def dn dir_exists_def)
      (simp add: world_dir_is_file_def path_join_def OUTPUT_DIR_def)
  note r1 = failing_write_stops_run [OF a1 b1 c1 d1 e1]
  note r2 = failing_write_stops_run [OF a2 b2 c2 d2 e2]
  note r3 = failing_write_stops_run [OF a3 b3 c3 d3 e3]
  have g1: "generate_assets env_fine float_text world_splash_is_dir =
      Inl (IsADirectoryError ''nebula-x-assets/nebula-x-splash.svg'', ?w1)"
    using r1 by (rule conjunct1)
  have g2: "generate_assets env_wordmark_denied float_text world_empty =
      Inl (OSError 13 ''nebula-x-assets/nebula-x-wordmark.svg'', ?w2)"
    using r2 by (rule conjunct1)
  have g3: "generate_assets env_fine float_text world_dir_is_file =
      Inl (NotADirectoryError ''nebula-x-assets/nebula-x-mark.svg'', world_dir_is_file)"
    using r3 by (rule conjunct1)
  have f1: "files ?w1 ''nebula-x-assets/nebula-x-mark.svg'' =
      Some (svg_text 100 100 (mark_content float_text))"
    using r1 [THEN conjunct2, THEN conjunct1]
    by (simp add: asset_calls_def asset_path_def path_join_def OUTPUT_DIR_def)
  have f1': "files ?w1 ''nebula-x-assets/favicon.svg'' = None"
    using r1 [THEN conjunct2, THEN conjunct2, THEN conjunct1]
    by (simp add: asset_names_def asset_path_def path_join_def OUTPUT_DIR_def world_splash_is_dir_def)
  have f2: "files ?w2 ''nebula-x-assets/nebula-x-splash.svg'' =
      Some (svg_text 400 400 (splash_content float_text))"
    using r2 [THEN conjunct2, THEN conjunct1]
    by (simp add: asset_calls_def asset_path_def path_join_def OUTPUT_DIR_def)
  have f2': "files ?w2 ''nebula-x-assets/nebula-x-logo-light.svg'' = None"
    using r2 [THEN conjunct2, THEN conjunct2, THEN conjunct1]
    by (simp add: asset_names_def asset_path_def path_join_def OUTPUT_DIR_def world_empty_def)
  have f3: "files world_dir_is_file ''nebula-x-assets/favicon.svg'' = None"
    using r3 [THEN conjunct2, THEN conjunct2, THEN conjunct1]
    by (simp add: asset_names_def asset_path_def path_join_def OUTPUT_DIR_def world_dir_is_file_def)
  show ?thesis
    by (intro conjI a1 b1 c1 d1 e1 g1 f1 f1' a2 b2 c2 d2 e2 g2 f2 f2' a3 b3 c3 d3 e3 g3 f3)
qed

end
